theory Spec2Isabelle
  imports Main "HOL-Library.Multiset"
begin

section \<open>JavaScript values\<close>

text \<open>
  The raw flag bag handed to the install command and the options read from the
  configuration are untyped JavaScript values; \<open>!!v\<close> and \<open>if (v)\<close> test their
  truthiness. An object used as a bag of properties is a function from the property
  name to its value, \<open>JSUndefined\<close> where the property is absent.
\<close>

datatype jsval = JSUndefined | JSNull | JSBool bool | JSNumber int | JSString string

fun truthy :: "jsval \<Rightarrow> bool" where
  "truthy JSUndefined = False"
| "truthy JSNull = False"
| "truthy (JSBool b) = b"
| "truthy (JSNumber n) = (n \<noteq> 0)"
| "truthy (JSString s) = (s \<noteq> [])"

text \<open>
  An object whose keys are enumerated (\<open>for (const name in obj)\<close>, \<open>Object.keys\<close>) is
  the list of its entries in enumeration order; every key occurs once. JavaScript
  enumerates first the keys that are array indices, in ascending numeric order, and
  then the other keys in the order in which they were created. An array index is the
  canonical decimal form of an integer from \<open>0\<close> to \<open>4294967294\<close>.
\<close>

type_synonym 'v obj = "(string \<times> 'v) list"

definition isDigit :: "char \<Rightarrow> bool" where
  "isDigit c = (c \<in> set ''0123456789'')"

definition digitValue :: "char \<Rightarrow> nat" where
  "digitValue c = length (takeWhile (\<lambda>d. d \<noteq> c) ''0123456789'')"

definition indexValue :: "string \<Rightarrow> nat" where
  "indexValue k = foldl (\<lambda>n c. 10 * n + digitValue c) 0 k"

definition isArrayIndex :: "string \<Rightarrow> bool" where
  "isArrayIndex k =
     (k \<noteq> [] \<and> list_all isDigit k \<and> (length k = 1 \<or> hd k \<noteq> CHR ''0'') \<and>
      indexValue k < 2 ^ 32 - 1)"

text \<open>
  The entries enumerated before a new array index \<open>k\<close>: those of a smaller array index.
\<close>

definition indexBefore :: "string \<Rightarrow> string \<times> 'v \<Rightarrow> bool" where
  "indexBefore k entry = (isArrayIndex (fst entry) \<and> indexValue (fst entry) < indexValue k)"

text \<open>
  \<open>obj[k] = v\<close> where \<open>k\<close> is not a new array index: an existing property keeps its
  place, a new key goes last.
\<close>

fun obj_put :: "string \<Rightarrow> 'v \<Rightarrow> 'v obj \<Rightarrow> 'v obj" where
  "obj_put k v [] = [(k, v)]"
| "obj_put k v ((k', v') # rest) =
     (if k = k' then (k, v) # rest else (k', v') # obj_put k v rest)"

text \<open>
  \<open>obj[k] = v\<close>: a new array index goes after the smaller array indices.
\<close>

definition obj_set :: "string \<Rightarrow> 'v \<Rightarrow> 'v obj \<Rightarrow> 'v obj" where
  "obj_set k v ob =
     (if isArrayIndex k \<and> k \<notin> fst ` set ob
      then takeWhile (indexBefore k) ob @ (k, v) # dropWhile (indexBefore k) ob
      else obj_put k v ob)"

definition obj_get :: "'v obj \<Rightarrow> string \<Rightarrow> 'v option" where
  "obj_get ob k = map_of ob k"

text \<open>\<open>Object.assign(target, source)\<close>: every entry of the source is assigned in turn.\<close>

definition obj_assign :: "'v obj \<Rightarrow> 'v obj \<Rightarrow> 'v obj" where
  "obj_assign target source = fold (\<lambda>(k, v). obj_set k v) source target"

section \<open>Flags\<close>

text \<open>The effective flags: the object literal built by \<open>normalizeFlags\<close>.\<close>

record Flags =
  har :: bool
  ignorePlatform :: bool
  ignoreEngines :: bool
  ignoreScripts :: bool
  ignoreOptional :: bool
  force :: bool
  flat :: bool
  lockfile :: bool
  pureLockfile :: bool
  skipIntegrityCheck :: bool
  frozenLockfile :: bool
  linkDuplicates :: bool
  checkFiles :: bool
  peer :: bool
  dev :: bool
  optional :: bool
  exact :: bool
  tilde :: bool

text \<open>
  The part of \<open>Config\<close> the install command reads. \<open>config_registries\<close> maps a
  registry name to the folder of its instance; \<open>getOfflineMirrorPath\<close> and
  \<open>modulesFolder\<close> are \<open>None\<close> where the JavaScript value is undefined.
\<close>

record Config =
  cwd :: string
  production :: bool
  getOption :: "string \<Rightarrow> jsval"
  modulesFolder :: "string option"
  config_pruneOfflineMirror :: bool
  getOfflineMirrorPath :: "string option"
  config_registries :: "string obj"

definition normalizeFlags :: "Config \<Rightarrow> (string \<Rightarrow> jsval) \<Rightarrow> Flags" where
  "normalizeFlags cfg rawFlags =
    (let flags0 = \<lparr>
           har = truthy (rawFlags ''har''),
           ignorePlatform = truthy (rawFlags ''ignorePlatform''),
           ignoreEngines = truthy (rawFlags ''ignoreEngines''),
           ignoreScripts = truthy (rawFlags ''ignoreScripts''),
           ignoreOptional = truthy (rawFlags ''ignoreOptional''),
           force = truthy (rawFlags ''force''),
           flat = truthy (rawFlags ''flat''),
           lockfile = (rawFlags ''lockfile'' \<noteq> JSBool False),
           pureLockfile = truthy (rawFlags ''pureLockfile''),
           skipIntegrityCheck = truthy (rawFlags ''skipIntegrityCheck''),
           frozenLockfile = truthy (rawFlags ''frozenLockfile''),
           linkDuplicates = truthy (rawFlags ''linkDuplicates''),
           checkFiles = truthy (rawFlags ''checkFiles''),
           peer = truthy (rawFlags ''peer''),
           dev = truthy (rawFlags ''dev''),
           optional = truthy (rawFlags ''optional''),
           exact = truthy (rawFlags ''exact''),
           tilde = truthy (rawFlags ''tilde'') \<rparr>;
         flags1 = (if truthy (getOption cfg ''ignore-scripts'')
                   then flags0\<lparr>ignoreScripts := True\<rparr> else flags0);
         flags2 = (if truthy (getOption cfg ''ignore-platform'')
                   then flags1\<lparr>ignorePlatform := True\<rparr> else flags1);
         flags3 = (if truthy (getOption cfg ''ignore-engines'')
                   then flags2\<lparr>ignoreEngines := True\<rparr> else flags2);
         flags4 = (if truthy (getOption cfg ''ignore-optional'')
                   then flags3\<lparr>ignoreOptional := True\<rparr> else flags3);
         flags5 = (if truthy (getOption cfg ''force'')
                   then flags4\<lparr>force := True\<rparr> else flags4)
     in flags5)"

section \<open>Data\<close>

text \<open>
  A root manifest as \<open>fetchRequestFromCwd\<close> reads it after normalization: the three
  dependency maps (name to range, empty where the key is absent), the
  \<open>resolutions\<close> map and the \<open>flat\<close> attribute.
\<close>

record RootManifest =
  dependencies :: "string obj"
  devDependencies :: "string obj"
  optionalDependencies :: "string obj"
  manifest_resolutions :: "string obj"
  manifest_flat :: jsval

text \<open>\<open>json[depType]\<close> for the three keys \<open>pushDeps\<close> is called with.\<close>

definition json_get :: "RootManifest \<Rightarrow> string \<Rightarrow> string obj" where
  "json_get json depType =
     (if depType = ''dependencies'' then dependencies json
      else if depType = ''devDependencies'' then devDependencies json
      else if depType = ''optionalDependencies'' then optionalDependencies json
      else [])"

record DependencyRequestPattern =
  req_pattern :: string
  req_registry :: string
  req_hint :: "string option"
  req_optional :: bool

record InstallCwdRequest =
  requests :: "DependencyRequestPattern list"
  patterns :: "string list"
  ignorePatterns :: "string list"
  usedPatterns :: "string list"
  manifest :: "RootManifest option"

text \<open>A lockfile entry; \<open>resolved\<close> is \<open>None\<close> where the property is undefined.\<close>

record LockManifest =
  resolved :: "string option"
  lock_version :: string

text \<open>The lockfile wrapper; \<open>cache\<close> is \<open>None\<close> when no lockfile was loaded.\<close>

record Lockfile =
  cache :: "LockManifest obj option"

text \<open>
  The resolver's manifests point to shared, mutable reference records
  (\<open>manifest._reference\<close>): the resolver owns a store of them and a manifest holds an
  index into it, \<open>None\<close> where \<open>_reference\<close> is undefined. Of a reference's
  \<open>requests\<close> array only the length is read; its elements are kept as the patterns
  of the requests.
\<close>

record PackageReference =
  ref_requests :: "string list"
  ignore :: bool
  ref_patterns :: "string list"
  ref_registry :: string

record Manifest =
  pkg_name :: string
  version :: string
  reference :: "nat option"

text \<open>
  The resolver's state: the three properties the install command reads directly and
  the store of references; \<open>opaque_state\<close> stands for everything else, which only the
  resolver's own methods read.
\<close>

record PackageResolver =
  resolver_patterns :: "Manifest obj"
  patternsByPackage :: "string list obj"
  usedRegistries :: "string list"
  references :: "PackageReference list"
  opaque_state :: nat

definition deref :: "PackageResolver \<Rightarrow> Manifest \<Rightarrow> (nat \<times> PackageReference) option" where
  "deref r m =
     (case reference m of
        None \<Rightarrow> None
      | Some i \<Rightarrow> if i < length (references r) then Some (i, references r ! i) else None)"

record IntegrityCheckResult =
  integrityMatches :: bool
  integrityFileMissing :: bool
  missingPatterns :: "string list"

text \<open>An entry of \<open>fs.walk\<close>.\<close>

record WalkFile =
  absolute :: string
  basename :: string

text \<open>A message of the reporter's language table: the key and its arguments.\<close>

datatype message = Lang string "string list"

record ReporterSelectOption =
  option_name :: message
  option_value :: string

section \<open>Effects, errors and the state\<close>

text \<open>
  Every call that leaves the install command (a collaborator, the file system, the
  reporter) is recorded in a trace. Flattened patterns may hold \<open>undefined\<close>
  (\<open>patternsByPackage[name][0]\<close> of an empty array), hence \<open>string option\<close>.
\<close>

datatype effect =
    LockfileFromDirectory string
  | ExecuteLifecycleScript string
  | CheckUpdate
  | MaybeOutputUpdate
  | ReadJson string
  | ReporterStep nat nat message
  | ReporterSuccess message
  | ReporterWarn message
  | ReporterSelect message message "ReporterSelectOption list"
  | ResolverInit "DependencyRequestPattern list" bool
  | ResolverCollapse string string
  | ResolverUpdateManifest nat
  | IntegrityCheck "string list"
  | IntegritySave "string list" "LockManifest obj" Flags "string list"
  | RemoveIntegrityFile
  | FetcherInit
  | CompatibilityInit
  | LinkerInit "string option list" bool
  | ScriptsInit "string option list"
  | SaveHar string
  | Clean
  | Walk string
  | Mkdirp string
  | Unlink string
  | WriteFilePreservingEol string "LockManifest obj"
  | GetRootManifests
  | SaveRootManifests "RootManifest obj"
  | ReadManifest string
  | ClearCache

datatype error =
    MessageError message
  | InvariantViolation string
  | TypeError string
  | CollaboratorError string

text \<open>
  The world outside the process: the paths that exist, as far as the install command
  itself tests, creates or deletes them, and the trace of calls so far.
\<close>

record World =
  files :: "string list"
  trace :: "effect list"

text \<open>An \<open>Install\<close> instance: its mutable fields, and the world it runs in.\<close>

record Install =
  flags :: Flags
  rootManifestRegistries :: "string list"
  rootPatternsToOrigin :: "string obj"
  resolutions :: "string obj"
  this_lockfile :: Lockfile
  resolver :: PackageResolver
  world :: World

text \<open>
  What the install command is given and what it calls but does not define: the
  configuration, the registry table (registry name to manifest file name, in the
  order of \<open>Object.keys(registries)\<close>), the constants, Node's \<open>path\<close> functions
  (\<open>path_inside dir p\<close> tells whether \<open>p\<close> lies under \<open>dir\<close>), the clock, and the
  methods of the collaborators. A method that can throw returns a sum; \<open>throws\<close>
  tells whether a call that returns nothing fails in a given world.
\<close>

record Env =
  config :: Config
  registries :: "string obj"
  LOCKFILE_FILENAME :: string
  CLEAN_FILENAME :: string
  path_join :: "string \<Rightarrow> string \<Rightarrow> string"
  path_basename :: "string \<Rightarrow> string"
  path_inside :: "string \<Rightarrow> string \<Rightarrow> bool"
  toISOString :: "World \<Rightarrow> string"
  getExoticResolver :: "string \<Rightarrow> bool"
  normalizePattern_name :: "string \<Rightarrow> string"
  readJson :: "World \<Rightarrow> string \<Rightarrow> error + RootManifest"
  normalizeManifest :: "RootManifest \<Rightarrow> error + RootManifest"
  fromDirectory :: "World \<Rightarrow> string \<Rightarrow> error + Lockfile"
  getLocked :: "Lockfile \<Rightarrow> string \<Rightarrow> bool \<Rightarrow> LockManifest option"
  getLockfile :: "Lockfile \<Rightarrow> Manifest obj \<Rightarrow> error + LockManifest obj"
  resolver_init ::
    "World \<Rightarrow> PackageResolver \<Rightarrow> DependencyRequestPattern list \<Rightarrow> bool \<Rightarrow> error + PackageResolver"
  getAllDependencyNamesByLevelOrder :: "PackageResolver \<Rightarrow> string list \<Rightarrow> string list"
  getAllInfoForPackageName :: "PackageResolver \<Rightarrow> string \<Rightarrow> Manifest list"
  collapseAllVersionsOfPackage ::
    "PackageResolver \<Rightarrow> string \<Rightarrow> string \<Rightarrow> error + string \<times> PackageResolver"
  getResolvedPattern :: "PackageResolver \<Rightarrow> string \<Rightarrow> Manifest option"
  getStrictResolvedPattern :: "PackageResolver \<Rightarrow> string \<Rightarrow> error + Manifest"
  getManifests :: "PackageResolver \<Rightarrow> Manifest list"
  updateManifest :: "PackageResolver \<Rightarrow> nat \<Rightarrow> Manifest \<Rightarrow> error + PackageResolver"
  generateHardModulePath :: "PackageReference \<Rightarrow> string"
  readManifest :: "World \<Rightarrow> string \<Rightarrow> error + Manifest"
  integrity_check ::
    "World \<Rightarrow> string list \<Rightarrow> LockManifest obj \<Rightarrow> Flags \<Rightarrow> error + IntegrityCheckResult"
  reporter_select ::
    "World \<Rightarrow> message \<Rightarrow> message \<Rightarrow> ReporterSelectOption list \<Rightarrow> error + string"
  getRootManifests :: "World \<Rightarrow> error + RootManifest obj"
  throws :: "World \<Rightarrow> effect \<Rightarrow> error option"

section \<open>Sequencing\<close>

text \<open>
  An asynchronous function is a state transformer that returns the awaited value or
  the error thrown, with the state as it stands at that point.
\<close>

type_synonym ('s, 'a) io = "'s \<Rightarrow> (error + 'a) \<times> 's"

definition io_return :: "'a \<Rightarrow> ('s, 'a) io" where
  "io_return x = (\<lambda>s. (Inr x, s))"

definition io_throw :: "error \<Rightarrow> ('s, 'a) io" where
  "io_throw e = (\<lambda>s. (Inl e, s))"

definition io_bind :: "('s, 'a) io \<Rightarrow> ('a \<Rightarrow> ('s, 'b) io) \<Rightarrow> ('s, 'b) io" where
  "io_bind m f = (\<lambda>s. case m s of (Inl e, s') \<Rightarrow> (Inl e, s') | (Inr x, s') \<Rightarrow> f x s')"

definition io_get :: "('s, 's) io" where
  "io_get = (\<lambda>s. (Inr s, s))"

definition io_modify :: "('s \<Rightarrow> 's) \<Rightarrow> ('s, unit) io" where
  "io_modify f = (\<lambda>s. (Inr (), f s))"

definition io_of_sum :: "error + 'a \<Rightarrow> ('s, 'a) io" where
  "io_of_sum r = (\<lambda>s. (r, s))"

definition log_effect :: "effect \<Rightarrow> World \<Rightarrow> World" where
  "log_effect ev w = w\<lparr>trace := trace w @ [ev]\<rparr>"

text \<open>A reporter call: recorded, never failing.\<close>

definition emit :: "effect \<Rightarrow> (World, unit) io" where
  "emit ev = io_modify (log_effect ev)"

text \<open>A call that returns a value: recorded, then answered (or failed) by the callee.\<close>

definition ask :: "effect \<Rightarrow> (World \<Rightarrow> error + 'a) \<Rightarrow> (World, 'a) io" where
  "ask ev answer = (\<lambda>w. (answer w, log_effect ev w))"

text \<open>A call that returns nothing: recorded, and failed where the callee throws.\<close>

definition perform :: "Env \<Rightarrow> effect \<Rightarrow> (World, unit) io" where
  "perform E ev = ask ev (\<lambda>w. case throws E w ev of Some e \<Rightarrow> Inl e | None \<Rightarrow> Inr ())"

definition in_world :: "(World, 'a) io \<Rightarrow> (Install, 'a) io" where
  "in_world m = (\<lambda>s. case m (world s) of (r, w) \<Rightarrow> (r, s\<lparr>world := w\<rparr>))"

text \<open>
  Modelled from the spec: \<open>fs.exists\<close> of util/fs.js, which is not part of the sources,
  tells whether a path exists.
\<close>

definition fs_exists :: "World \<Rightarrow> string \<Rightarrow> bool" where
  "fs_exists w loc = (loc \<in> set (files w))"

text \<open>
  Modelled from the spec: \<open>fs.mkdirp\<close> of util/fs.js creates the folder, unless it
  fails.
\<close>

definition fs_mkdirp :: "Env \<Rightarrow> string \<Rightarrow> (World, unit) io" where
  "fs_mkdirp E loc =
     io_bind (perform E (Mkdirp loc)) (\<lambda>_. io_modify (\<lambda>w. w\<lparr>files := List.insert loc (files w)\<rparr>))"

text \<open>
  Modelled from the spec: \<open>fs.unlink\<close> of util/fs.js deletes the file, unless it fails.
\<close>

definition fs_unlink :: "Env \<Rightarrow> string \<Rightarrow> (World, unit) io" where
  "fs_unlink E loc =
     io_bind (perform E (Unlink loc)) (\<lambda>_. io_modify (\<lambda>w. w\<lparr>files := removeAll loc (files w)\<rparr>))"

text \<open>
  Modelled from the spec: \<open>fs.writeFilePreservingEol\<close> of util/fs.js writes the file,
  unless it fails. The content written is \<open>lockStringify\<close> of the lockfile image, which
  stands for it in the event.
\<close>

definition fs_writeFilePreservingEol :: "Env \<Rightarrow> string \<Rightarrow> LockManifest obj \<Rightarrow> (World, unit) io" where
  "fs_writeFilePreservingEol E loc src =
     io_bind (perform E (WriteFilePreservingEol loc src))
       (\<lambda>_. io_modify (\<lambda>w. w\<lparr>files := List.insert loc (files w)\<rparr>))"

text \<open>
  Modelled from the spec: \<open>fs.walk\<close> of util/fs.js lists every file under the
  directory (\<open>path_inside\<close> tells which paths are), each with its absolute path and
  its basename, unless it fails.
\<close>

definition fs_walk :: "Env \<Rightarrow> string \<Rightarrow> (World, WalkFile list) io" where
  "fs_walk E dir =
     io_bind (perform E (Walk dir)) (\<lambda>_.
     io_bind io_get (\<lambda>w.
     io_return (map (\<lambda>p. \<lparr>absolute = p, basename = path_basename E p\<rparr>)
                  (filter (path_inside E dir) (files w)))))"

text \<open>\<open>xs.join(sep)\<close>\<close>

fun js_join :: "string \<Rightarrow> string list \<Rightarrow> string" where
  "js_join sep [] = []"
| "js_join sep [x] = x"
| "js_join sep (x # y # rest) = x @ sep @ js_join sep (y # rest)"

text \<open>Truthiness of a string that may be undefined.\<close>

definition truthy_string :: "string option \<Rightarrow> bool" where
  "truthy_string v = (case v of None \<Rightarrow> False | Some x \<Rightarrow> x \<noteq> [])"

section \<open>Install.fetchRequestFromCwd\<close>

text \<open>The loop over \<open>excludePatterns\<close> that fills \<open>excludeNames\<close>.\<close>

definition excludeNames_of :: "Env \<Rightarrow> string list \<Rightarrow> string list" where
  "excludeNames_of E excludePatterns =
     fold (\<lambda>pattern excludeNames.
             if getExoticResolver E pattern then excludeNames
             else excludeNames @ [normalizePattern_name E pattern])
       excludePatterns []"

text \<open>
  The body of the loop of \<open>pushDeps\<close> for one entry \<open>(name, depMap[name])\<close>. The
  accumulator holds the arrays \<open>deps\<close> (as \<open>requests\<close>), \<open>patterns\<close>, \<open>usedPatterns\<close>
  and \<open>ignorePatterns\<close>, and the instance, whose \<open>rootPatternsToOrigin\<close> is written.
\<close>

definition pushDep ::
  "Env \<Rightarrow> string list \<Rightarrow> string \<Rightarrow> string \<Rightarrow> string option \<Rightarrow> bool \<Rightarrow> bool \<Rightarrow>
   string \<times> string \<Rightarrow> InstallCwdRequest \<times> Install \<Rightarrow> InstallCwdRequest \<times> Install" where
  "pushDep E excludeNames registry depType hnt opt isUsed entry acc =
     (let name = fst entry; req = fst acc; s = snd acc in
      if name \<in> set excludeNames then acc
      else
        let pattern = (if getLocked E (this_lockfile s) name True = None
                       then name @ ''@'' @ snd entry else name)
        in (req\<lparr> usedPatterns := (if isUsed then usedPatterns req @ [pattern]
                                    else usedPatterns req),
                  ignorePatterns := (if isUsed then ignorePatterns req
                                     else ignorePatterns req @ [pattern]),
                  patterns := patterns req @ [pattern],
                  requests := requests req @
                    [\<lparr>req_pattern = pattern, req_registry = registry,
                      req_hint = hnt, req_optional = opt\<rparr>] \<rparr>,
            s\<lparr> rootPatternsToOrigin := obj_set pattern depType (rootPatternsToOrigin s) \<rparr>))"

definition pushDeps ::
  "Env \<Rightarrow> string list \<Rightarrow> bool \<Rightarrow> string \<Rightarrow> RootManifest \<Rightarrow> string \<Rightarrow> string option \<Rightarrow>
   bool \<Rightarrow> bool \<Rightarrow> InstallCwdRequest \<times> Install \<Rightarrow> InstallCwdRequest \<times> Install" where
  "pushDeps E excludeNames ignoreUnusedPatterns registry json depType hnt opt isUsed acc =
     (if ignoreUnusedPatterns \<and> \<not> isUsed then acc
      else fold (pushDep E excludeNames registry depType hnt opt isUsed)
             (json_get json depType) acc)"

text \<open>
  The body of the registry loop once the manifest file is known to exist, up to the
  \<open>break\<close>.
\<close>

definition collectManifest ::
  "Env \<Rightarrow> string list \<Rightarrow> bool \<Rightarrow> string \<Rightarrow> string \<Rightarrow> InstallCwdRequest \<Rightarrow>
   (Install, InstallCwdRequest) io" where
  "collectManifest E excludeNames ignoreUnusedPatterns registry loc req =
     io_bind (io_modify (\<lambda>s. s\<lparr>rootManifestRegistries := rootManifestRegistries s @ [registry]\<rparr>))
       (\<lambda>_.
     io_bind (in_world (ask (ReadJson loc) (\<lambda>w. readJson E w loc))) (\<lambda>json0.
     io_bind (io_of_sum (normalizeManifest E json0)) (\<lambda>json.
     io_bind (io_modify (\<lambda>s. s\<lparr>resolutions :=
                obj_assign (resolutions s) (manifest_resolutions json)\<rparr>)) (\<lambda>_.
     (\<lambda>s.
        let acc0 = (req\<lparr>manifest := Some json\<rparr>, s);
            acc1 = pushDeps E excludeNames ignoreUnusedPatterns registry json
                     ''dependencies'' None False True acc0;
            acc2 = pushDeps E excludeNames ignoreUnusedPatterns registry json
                     ''devDependencies'' (Some ''dev'') False (\<not> production (config E)) acc1;
            acc3 = pushDeps E excludeNames ignoreUnusedPatterns registry json
                     ''optionalDependencies'' (Some ''optional'') True
                     (\<not> ignoreOptional (flags s)) acc2
        in (Inr (fst acc3), snd acc3))))))"

text \<open>\<open>for (const registry of Object.keys(registries))\<close>\<close>

fun registryLoop ::
  "Env \<Rightarrow> string list \<Rightarrow> bool \<Rightarrow> string obj \<Rightarrow> InstallCwdRequest \<Rightarrow> Install \<Rightarrow>
   (error + InstallCwdRequest) \<times> Install" where
  "registryLoop E excludeNames ignoreUnusedPatterns [] req s = (Inr req, s)"
| "registryLoop E excludeNames ignoreUnusedPatterns ((registry, filename) # rest) req s =
     (let loc = path_join E (cwd (config E)) filename in
      if \<not> fs_exists (world s) loc
      then registryLoop E excludeNames ignoreUnusedPatterns rest req s
      else collectManifest E excludeNames ignoreUnusedPatterns registry loc req s)"

definition fetchRequestFromCwd ::
  "Env \<Rightarrow> string list \<Rightarrow> bool \<Rightarrow> (Install, InstallCwdRequest) io" where
  "fetchRequestFromCwd E excludePatterns ignoreUnusedPatterns =
     io_bind (registryLoop E (excludeNames_of E excludePatterns) ignoreUnusedPatterns
                (registries E)
                \<lparr>requests = [], patterns = [], ignorePatterns = [], usedPatterns = [],
                  manifest = None\<rparr>) (\<lambda>req.
     io_bind (io_modify (\<lambda>s.
                if (case manifest req of None \<Rightarrow> False | Some json \<Rightarrow> truthy (manifest_flat json))
                then s\<lparr>flags := (flags s)\<lparr>flat := True\<rparr>\<rparr> else s)) (\<lambda>_.
     io_return req))"

section \<open>Install.pruneOfflineMirror and Install.saveLockfileAndIntegrity\<close>

text \<open>The set \<open>requiredTarballs\<close>, as the list of its elements.\<close>

definition requiredTarballs :: "Env \<Rightarrow> LockManifest obj \<Rightarrow> string list" where
  "requiredTarballs E lockfileImage =
     fold (\<lambda>entry required.
             if truthy_string (resolved (snd entry))
             then List.insert
                    (path_basename E (takeWhile (\<lambda>c. c \<noteq> CHR ''#'') (the (resolved (snd entry)))))
                    required
             else required)
       lockfileImage []"

fun unlinkStale :: "Env \<Rightarrow> string list \<Rightarrow> WalkFile list \<Rightarrow> World \<Rightarrow> (error + unit) \<times> World" where
  "unlinkStale E required [] w = (Inr (), w)"
| "unlinkStale E required (tarball # rest) w =
     (if basename tarball \<notin> set required
      then (case fs_unlink E (absolute tarball) w of
              (Inl e, w') \<Rightarrow> (Inl e, w')
            | (Inr _, w') \<Rightarrow> unlinkStale E required rest w')
      else unlinkStale E required rest w)"

definition pruneOfflineMirror :: "Env \<Rightarrow> LockManifest obj \<Rightarrow> (World, unit) io" where
  "pruneOfflineMirror E lockfileImage =
     (if \<not> truthy_string (getOfflineMirrorPath (config E)) then io_return ()
      else
        let mirror = the (getOfflineMirrorPath (config E));
            required = requiredTarballs E lockfileImage
        in io_bind (fs_walk E mirror) (\<lambda>mirrorTarballs. unlinkStale E required mirrorTarballs))"

definition lockFileHasAllPatterns :: "Env \<Rightarrow> Lockfile \<Rightarrow> string list \<Rightarrow> bool" where
  "lockFileHasAllPatterns E lf pats =
     (length (filter (\<lambda>p. getLocked E lf p False = None) pats) = 0)"

definition resolverPatternsAreSameAsInLockfile ::
  "Env \<Rightarrow> Lockfile \<Rightarrow> LockManifest obj \<Rightarrow> bool" where
  "resolverPatternsAreSameAsInLockfile E lf lockfileBasedOnResolver =
     (length (filter (\<lambda>entry.
                 case getLocked E lf (fst entry) False of
                   None \<Rightarrow> True
                 | Some man \<Rightarrow> resolved man \<noteq> resolved (snd entry))
              lockfileBasedOnResolver) = 0)"

definition saveLockfileAndIntegrity :: "Env \<Rightarrow> string list \<Rightarrow> (Install, unit) io" where
  "saveLockfileAndIntegrity E pats =
     io_bind io_get (\<lambda>s.
       if lockfile (flags s) = False \<or> pureLockfile (flags s) then io_return ()
       else
         io_bind (io_of_sum (getLockfile E (this_lockfile s) (resolver_patterns (resolver s))))
           (\<lambda>lockfileBasedOnResolver.
         io_bind (if config_pruneOfflineMirror (config E)
                  then in_world (pruneOfflineMirror E lockfileBasedOnResolver)
                  else io_return ()) (\<lambda>_.
         io_bind (in_world (perform E
                    (IntegritySave pats lockfileBasedOnResolver (flags s)
                       (usedRegistries (resolver s))))) (\<lambda>_.
           if lockFileHasAllPatterns E (this_lockfile s) pats \<and>
              resolverPatternsAreSameAsInLockfile E (this_lockfile s) lockfileBasedOnResolver \<and>
              length pats \<noteq> 0 \<and> \<not> force (flags s)
           then io_return ()
           else
             let loc = path_join E (cwd (config E)) (LOCKFILE_FILENAME E) in
             io_bind (in_world (fs_writeFilePreservingEol E loc lockfileBasedOnResolver)) (\<lambda>_.
             in_world (emit (ReporterSuccess (Lang ''savedLockfile'' []))))))))"

section \<open>Install.bailout\<close>

fun mkdirpFolders :: "Env \<Rightarrow> string list \<Rightarrow> World \<Rightarrow> (error + unit) \<times> World" where
  "mkdirpFolders E [] w = (Inr (), w)"
| "mkdirpFolders E (registryName # rest) w =
     (case obj_get (config_registries (config E)) registryName of
        None \<Rightarrow> (Inl (TypeError ''config.registries[registryName] is undefined''), w)
      | Some folder \<Rightarrow>
          (case fs_mkdirp E (path_join E (cwd (config E)) folder) w of
             (Inl e, w') \<Rightarrow> (Inl e, w')
           | (Inr _, w') \<Rightarrow> mkdirpFolders E rest w'))"

definition createEmptyManifestFolders :: "Env \<Rightarrow> (Install, unit) io" where
  "createEmptyManifestFolders E =
     (if truthy_string (modulesFolder (config E)) then io_return ()
      else io_bind io_get (\<lambda>s. in_world (mkdirpFolders E (rootManifestRegistries s))))"

definition bailout :: "Env \<Rightarrow> string list \<Rightarrow> (Install, bool) io" where
  "bailout E pats =
     io_bind io_get (\<lambda>s.
       if skipIntegrityCheck (flags s) \<or> force (flags s) then io_return False
       else case cache (this_lockfile s) of
         None \<Rightarrow> io_return False
       | Some lockfileCache \<Rightarrow>
           io_bind (in_world (ask (IntegrityCheck pats)
                      (\<lambda>w. integrity_check E w pats lockfileCache (flags s)))) (\<lambda>match.
             if frozenLockfile (flags s) \<and> length (missingPatterns match) > 0
             then io_throw (MessageError (Lang ''frozenLockfileError'' []))
             else
               io_bind io_get (\<lambda>s1.
                 let haveLockfile =
                       fs_exists (world s1) (path_join E (cwd (config E)) (LOCKFILE_FILENAME E))
                 in
                 if integrityMatches match \<and> haveLockfile then
                   io_bind (in_world (emit (ReporterSuccess (Lang ''upToDate'' [])))) (\<lambda>_.
                   io_return True)
                 else if length pats = 0 \<and> \<not> integrityFileMissing match then
                   io_bind (in_world (emit (ReporterSuccess (Lang ''nothingToInstall'' []))))
                     (\<lambda>_.
                   io_bind (createEmptyManifestFolders E) (\<lambda>_.
                   io_bind (saveLockfileAndIntegrity E pats) (\<lambda>_.
                   io_return True)))
                 else io_return False)))"

section \<open>Install.markIgnored\<close>

fun markIgnored :: "Env \<Rightarrow> string list \<Rightarrow> Install \<Rightarrow> (error + unit) \<times> Install" where
  "markIgnored E [] s = (Inr (), s)"
| "markIgnored E (pattern # rest) s =
     (case getStrictResolvedPattern E (resolver s) pattern of
        Inl e \<Rightarrow> (Inl e, s)
      | Inr man \<Rightarrow>
          (case deref (resolver s) man of
             None \<Rightarrow> (Inl (InvariantViolation ''expected package reference''), s)
           | Some (i, ref) \<Rightarrow>
               if length (ref_requests ref) = 1
               then markIgnored E rest
                      (s\<lparr>resolver := (resolver s)\<lparr>references :=
                           (references (resolver s))[i := ref\<lparr>ignore := True\<rparr>]\<rparr>\<rparr>)
               else markIgnored E rest s))"

section \<open>Install.flatten\<close>

text \<open>The \<open>filter\<close> callback of \<open>flatten\<close>: keeps the manifests whose reference is not ignored.\<close>

fun filterNotIgnored :: "PackageResolver \<Rightarrow> Manifest list \<Rightarrow> error + Manifest list" where
  "filterNotIgnored r [] = Inr []"
| "filterNotIgnored r (man # rest) =
     (case deref r man of
        None \<Rightarrow> Inl (InvariantViolation ''expected package reference'')
      | Some (i, ref) \<Rightarrow>
          (case filterNotIgnored r rest of
             Inl e \<Rightarrow> Inl e
           | Inr others \<Rightarrow> Inr (if \<not> ignore ref then man # others else others)))"

text \<open>The \<open>map\<close> callback that builds the options of the prompt.\<close>

fun selectOptions :: "PackageResolver \<Rightarrow> Manifest list \<Rightarrow> error + ReporterSelectOption list" where
  "selectOptions r [] = Inr []"
| "selectOptions r (info # rest) =
     (case deref r info of
        None \<Rightarrow> Inl (InvariantViolation ''expected reference'')
      | Some (i, ref) \<Rightarrow>
          (case selectOptions r rest of
             Inl e \<Rightarrow> Inl e
           | Inr options \<Rightarrow>
               Inr (\<lparr>option_name = Lang ''manualVersionResolutionOption''
                                      [js_join '', '' (ref_patterns ref), version info],
                     option_value = version info\<rparr> # options)))"

text \<open>The choice of the version for a package with several candidates.\<close>

definition chooseVersion ::
  "Env \<Rightarrow> string \<Rightarrow> ReporterSelectOption list \<Rightarrow> string list \<Rightarrow> (Install, string) io" where
  "chooseVersion E name options versions =
     io_bind io_get (\<lambda>s.
       if truthy_string (obj_get (resolutions s) name) \<and>
          the (obj_get (resolutions s) name) \<in> set versions
       then io_return (the (obj_get (resolutions s) name))
       else
         io_bind (in_world (ask
                    (ReporterSelect (Lang ''manualVersionResolution'' [name]) (Lang ''answer'' [])
                       options)
                    (\<lambda>w. reporter_select E w (Lang ''manualVersionResolution'' [name])
                            (Lang ''answer'' []) options))) (\<lambda>v.
         io_bind (io_modify (\<lambda>s1. s1\<lparr>resolutions := obj_set name v (resolutions s1)\<rparr>)) (\<lambda>_.
         io_return v)))"

definition collapse :: "Env \<Rightarrow> string \<Rightarrow> string \<Rightarrow> (Install, string) io" where
  "collapse E name v =
     io_bind io_get (\<lambda>s.
     io_bind (in_world (ask (ResolverCollapse name v)
                (\<lambda>w. collapseAllVersionsOfPackage E (resolver s) name v))) (\<lambda>res.
     io_bind (io_modify (\<lambda>s1. s1\<lparr>resolver := snd res\<rparr>)) (\<lambda>_.
     io_return (fst res))))"

text \<open>The loop of \<open>flatten\<close> over the names in level order.\<close>

fun flattenNames ::
  "Env \<Rightarrow> string list \<Rightarrow> string option list \<Rightarrow> Install \<Rightarrow> (error + string option list) \<times> Install"
  where
  "flattenNames E [] flattenedPatterns s = (Inr flattenedPatterns, s)"
| "flattenNames E (name # rest) flattenedPatterns s =
     (case filterNotIgnored (resolver s) (getAllInfoForPackageName E (resolver s) name) of
        Inl e \<Rightarrow> (Inl e, s)
      | Inr infos \<Rightarrow>
          if length infos = 0 then flattenNames E rest flattenedPatterns s
          else if length infos = 1 then
            (case obj_get (patternsByPackage (resolver s)) name of
               None \<Rightarrow> (Inl (TypeError ''patternsByPackage[name] is undefined''), s)
             | Some ps \<Rightarrow>
                 flattenNames E rest
                   (flattenedPatterns @ [case ps of [] \<Rightarrow> None | p # _ \<Rightarrow> Some p]) s)
          else
            (case selectOptions (resolver s) infos of
               Inl e \<Rightarrow> (Inl e, s)
             | Inr options \<Rightarrow>
                 (case chooseVersion E name options (map version infos) s of
                    (Inl e, s1) \<Rightarrow> (Inl e, s1)
                  | (Inr v, s1) \<Rightarrow>
                      (case collapse E name v s1 of
                         (Inl e, s2) \<Rightarrow> (Inl e, s2)
                       | (Inr p, s2) \<Rightarrow>
                           flattenNames E rest (flattenedPatterns @ [Some p]) s2))))"

text \<open>The inner loop that looks for the first pattern with a resolved manifest.\<close>

fun firstResolved :: "Env \<Rightarrow> PackageResolver \<Rightarrow> string list \<Rightarrow> Manifest option" where
  "firstResolved E r [] = None"
| "firstResolved E r (pattern # rest) =
     (case getResolvedPattern E r pattern of
        Some man \<Rightarrow> Some man
      | None \<Rightarrow> firstResolved E r rest)"

text \<open>The loop that writes the resolutions into the root manifests' objects.\<close>

fun saveResolutions ::
  "Env \<Rightarrow> PackageResolver \<Rightarrow> string obj \<Rightarrow> RootManifest obj \<Rightarrow> error + RootManifest obj" where
  "saveResolutions E r [] manifests = Inr manifests"
| "saveResolutions E r ((name, v) # rest) manifests =
     (case obj_get (patternsByPackage r) name of
        None \<Rightarrow> saveResolutions E r rest manifests
      | Some ps \<Rightarrow>
          (case firstResolved E r ps of
             None \<Rightarrow> Inl (InvariantViolation ''expected manifest'')
           | Some man \<Rightarrow>
               (case deref r man of
                  None \<Rightarrow> Inl (InvariantViolation ''expected reference'')
                | Some (i, ref) \<Rightarrow>
                    (case obj_get manifests (ref_registry ref) of
                       None \<Rightarrow> Inl (TypeError ''manifests[ref.registry] is undefined'')
                     | Some object \<Rightarrow>
                         saveResolutions E r rest
                           (obj_set (ref_registry ref)
                              (object\<lparr>manifest_resolutions :=
                                 obj_set name v (manifest_resolutions object)\<rparr>)
                              manifests)))))"

definition flatten :: "Env \<Rightarrow> string list \<Rightarrow> (Install, string option list) io" where
  "flatten E pats =
     io_bind io_get (\<lambda>s.
       if \<not> flat (flags s) then io_return (map Some pats)
       else
         io_bind (flattenNames E (getAllDependencyNamesByLevelOrder E (resolver s) pats) [])
           (\<lambda>flattenedPatterns.
         io_bind io_get (\<lambda>s1.
           if length (resolutions s1) \<noteq> 0 then
             io_bind (in_world (ask GetRootManifests (getRootManifests E))) (\<lambda>manifests.
             io_bind (io_of_sum (saveResolutions E (resolver s1) (resolutions s1) manifests))
               (\<lambda>manifests'.
             io_bind (in_world (perform E (SaveRootManifests manifests'))) (\<lambda>_.
             io_return flattenedPatterns)))
           else io_return flattenedPatterns)))"

section \<open>Install.hydrate\<close>

definition resolverInit :: "Env \<Rightarrow> DependencyRequestPattern list \<Rightarrow> (Install, unit) io" where
  "resolverInit E reqs =
     io_bind io_get (\<lambda>s.
     io_bind (in_world (ask (ResolverInit reqs (flat (flags s)))
                (\<lambda>w. resolver_init E w (resolver s) reqs (flat (flags s))))) (\<lambda>r.
     io_modify (\<lambda>s1. s1\<lparr>resolver := r\<rparr>)))"

text \<open>The loop that expands the minimal manifests.\<close>

fun expandManifests :: "Env \<Rightarrow> Manifest list \<Rightarrow> Install \<Rightarrow> (error + unit) \<times> Install" where
  "expandManifests E [] s = (Inr (), s)"
| "expandManifests E (man # rest) s =
     (case deref (resolver s) man of
        None \<Rightarrow> (Inl (InvariantViolation ''expected reference''), s)
      | Some (i, ref) \<Rightarrow>
          (let loc = generateHardModulePath E ref in
           case in_world (ask (ReadManifest loc) (\<lambda>w. readManifest E w loc)) s of
             (Inl e, s1) \<Rightarrow> (Inl e, s1)
           | (Inr newPkg, s1) \<Rightarrow>
               (case in_world (ask (ResolverUpdateManifest i)
                        (\<lambda>w. updateManifest E (resolver s1) i newPkg)) s1 of
                  (Inl e, s2) \<Rightarrow> (Inl e, s2)
                | (Inr r, s2) \<Rightarrow> expandManifests E rest (s2\<lparr>resolver := r\<rparr>))))"

definition hydrate :: "Env \<Rightarrow> bool \<Rightarrow> bool \<Rightarrow> (Install, InstallCwdRequest) io" where
  "hydrate E fetch ignoreUnusedPatterns =
     io_bind (fetchRequestFromCwd E [] ignoreUnusedPatterns) (\<lambda>request.
     io_bind (resolverInit E (requests request)) (\<lambda>_.
     io_bind (flatten E (patterns request)) (\<lambda>_.
     io_bind (markIgnored E (ignorePatterns request)) (\<lambda>_.
     io_bind (if fetch then
                io_bind (in_world (perform E FetcherInit)) (\<lambda>_.
                io_bind (in_world (perform E CompatibilityInit)) (\<lambda>_.
                io_bind io_get (\<lambda>s. expandManifests E (getManifests E (resolver s)))))
              else io_return ()) (\<lambda>_.
     io_return request)))))"

section \<open>Install.init\<close>

definition prepareRequests :: "DependencyRequestPattern list \<Rightarrow> DependencyRequestPattern list" where
  "prepareRequests reqs = reqs"

definition preparePatterns :: "string list \<Rightarrow> string list" where
  "preparePatterns pats = pats"

definition shouldClean :: "Env \<Rightarrow> World \<Rightarrow> bool" where
  "shouldClean E w = fs_exists w (path_join E (cwd (config E)) (CLEAN_FILENAME E))"

text \<open>
  The closures pushed on \<open>steps\<close>, in the order of the source, and the two variables
  of \<open>init\<close> they assign.
\<close>

datatype step = StepResolve | StepFetch | StepLink | StepScripts | StepHar | StepClean

record InitLocals =
  topLevelPatterns :: "string list"
  flattenedTopLevelPatterns :: "string option list"

text \<open>
  A step called with \<open>(curr, total)\<close>; the boolean is \<open>stepResult && stepResult.bailout\<close>.
\<close>

definition runStep ::
  "Env \<Rightarrow> InstallCwdRequest \<Rightarrow> step \<Rightarrow> nat \<Rightarrow> nat \<Rightarrow> InitLocals \<Rightarrow>
   (Install, bool \<times> InitLocals) io" where
  "runStep E req st cur tot locals =
     (case st of
        StepResolve \<Rightarrow>
          io_bind (in_world (emit (ReporterStep cur tot (Lang ''resolvingPackages'' []))))
            (\<lambda>_.
          io_bind (resolverInit E (prepareRequests (requests req))) (\<lambda>_.
          io_bind (flatten E (preparePatterns (patterns req))) (\<lambda>flattened.
          io_bind (bailout E (usedPatterns req)) (\<lambda>b.
          io_return (b, \<lparr>topLevelPatterns = preparePatterns (patterns req),
                          flattenedTopLevelPatterns = flattened\<rparr>)))))
      | StepFetch \<Rightarrow>
          io_bind (markIgnored E (ignorePatterns req)) (\<lambda>_.
          io_bind (in_world (emit (ReporterStep cur tot (Lang ''fetchingPackages'' []))))
            (\<lambda>_.
          io_bind (in_world (perform E FetcherInit)) (\<lambda>_.
          io_bind (in_world (perform E CompatibilityInit)) (\<lambda>_.
          io_return (False, locals)))))
      | StepLink \<Rightarrow>
          io_bind (in_world (perform E RemoveIntegrityFile)) (\<lambda>_.
          io_bind (in_world (emit (ReporterStep cur tot (Lang ''linkingDependencies'' []))))
            (\<lambda>_.
          io_bind io_get (\<lambda>s.
          io_bind (in_world (perform E
                     (LinkerInit (flattenedTopLevelPatterns locals) (linkDuplicates (flags s)))))
            (\<lambda>_.
          io_return (False, locals)))))
      | StepScripts \<Rightarrow>
          io_bind io_get (\<lambda>s.
          io_bind (in_world (emit (ReporterStep cur tot
                     (if force (flags s) then Lang ''rebuildingPackages'' []
                      else Lang ''buildingFreshPackages'' [])))) (\<lambda>_.
          io_bind (if ignoreScripts (flags s)
                   then in_world (emit (ReporterWarn (Lang ''ignoredScripts'' [])))
                   else in_world (perform E (ScriptsInit (flattenedTopLevelPatterns locals))))
            (\<lambda>_.
          io_return (False, locals))))
      | StepHar \<Rightarrow>
          io_bind io_get (\<lambda>s.
          let formattedDate =
                map (\<lambda>c. if c = CHR '':'' then CHR ''-'' else c) (toISOString E (world s));
              filename = ''yarn-install_'' @ formattedDate @ ''.har''
          in
          io_bind (in_world (emit (ReporterStep cur tot (Lang ''savingHar'' [filename]))))
            (\<lambda>_.
          io_bind (in_world (perform E (SaveHar filename))) (\<lambda>_.
          io_return (False, locals))))
      | StepClean \<Rightarrow>
          io_bind (in_world (emit (ReporterStep cur tot (Lang ''cleaningModules'' []))))
            (\<lambda>_.
          io_bind (in_world (perform E Clean)) (\<lambda>_.
          io_return (False, locals))))"

text \<open>\<open>for (const step of steps)\<close>, returning early on a bailout.\<close>

fun runSteps ::
  "Env \<Rightarrow> InstallCwdRequest \<Rightarrow> step list \<Rightarrow> nat \<Rightarrow> nat \<Rightarrow> InitLocals \<Rightarrow> Install \<Rightarrow>
   (error + bool \<times> InitLocals) \<times> Install" where
  "runSteps E req [] currentStep tot locals s = (Inr (False, locals), s)"
| "runSteps E req (st # rest) currentStep tot locals s =
     (case runStep E req st (currentStep + 1) tot locals s of
        (Inl e, s1) \<Rightarrow> (Inl e, s1)
      | (Inr res, s1) \<Rightarrow>
          if fst res then (Inr (True, snd res), s1)
          else runSteps E req rest (currentStep + 1) tot (snd res) s1)"

text \<open>
  The self-update nag (\<open>checkUpdate\<close>, \<open>maybeOutputUpdate\<close>) runs beside the pipeline
  and swallows its errors; its start and its final hook are recorded as events.
\<close>

definition init :: "Env \<Rightarrow> (Install, string option list) io" where
  "init E =
     io_bind (in_world (emit CheckUpdate)) (\<lambda>_.
     io_bind io_get (\<lambda>s0.
     io_bind (if fs_exists (world s0) (path_join E (cwd (config E)) ''npm-shrinkwrap.json'')
              then in_world (emit (ReporterWarn (Lang ''shrinkwrapWarning'' [])))
              else io_return ()) (\<lambda>_.
     io_bind (fetchRequestFromCwd E [] False) (\<lambda>req.
     io_bind io_get (\<lambda>s1.
     let steps = [StepResolve, StepFetch, StepLink, StepScripts]
                 @ (if har (flags s1) then [StepHar] else [])
                 @ (if shouldClean E (world s1) then [StepClean] else [])
     in
     io_bind (runSteps E req steps 0 (length steps)
                \<lparr>topLevelPatterns = [], flattenedTopLevelPatterns = []\<rparr>) (\<lambda>res.
       if fst res then io_return (flattenedTopLevelPatterns (snd res))
       else
         io_bind (saveLockfileAndIntegrity E (topLevelPatterns (snd res))) (\<lambda>_.
         io_bind (in_world (emit MaybeOutputUpdate)) (\<lambda>_.
         io_bind (in_world (perform E ClearCache)) (\<lambda>_.
         io_return (flattenedTopLevelPatterns (snd res)))))))))))"

section \<open>run and wrapLifecycle\<close>

definition wrapLifecycle :: "Env \<Rightarrow> (World, unit) io \<Rightarrow> (World, unit) io" where
  "wrapLifecycle E factory =
     io_bind (perform E (ExecuteLifecycleScript ''preinstall'')) (\<lambda>_.
     io_bind factory (\<lambda>_.
     io_bind (perform E (ExecuteLifecycleScript ''install'')) (\<lambda>_.
     io_bind (perform E (ExecuteLifecycleScript ''postinstall'')) (\<lambda>_.
     if \<not> production (config E) then
       io_bind (perform E (ExecuteLifecycleScript ''prepublish'')) (\<lambda>_.
       perform E (ExecuteLifecycleScript ''prepare''))
     else io_return ()))))"

text \<open>The constructor of \<open>Install\<close>; a fresh resolver has resolved nothing.\<close>

definition new_Install :: "Env \<Rightarrow> (string \<Rightarrow> jsval) \<Rightarrow> Lockfile \<Rightarrow> World \<Rightarrow> Install" where
  "new_Install E rawFlags lf w =
     \<lparr>flags = normalizeFlags (config E) rawFlags,
      rootManifestRegistries = [],
      rootPatternsToOrigin = [],
      resolutions = [],
      this_lockfile = lf,
      resolver = \<lparr>resolver_patterns = [], patternsByPackage = [], usedRegistries = [],
                   references = [], opaque_state = 0\<rparr>,
      world = w\<rparr>"

definition run :: "Env \<Rightarrow> (string \<Rightarrow> jsval) \<Rightarrow> string list \<Rightarrow> (World, unit) io" where
  "run E rawFlags args =
     io_bind (if rawFlags ''lockfile'' = JSBool False then io_return \<lparr>cache = None\<rparr>
              else ask (LockfileFromDirectory (cwd (config E)))
                     (\<lambda>w. fromDirectory E w (cwd (config E)))) (\<lambda>lf.
       if length args \<noteq> 0 then
         let exampleArgs =
               args
               @ (if truthy (rawFlags ''saveDev'') then [''--dev''] else [])
               @ (if truthy (rawFlags ''savePeer'') then [''--peer''] else [])
               @ (if truthy (rawFlags ''saveOptional'') then [''--optional''] else [])
               @ (if truthy (rawFlags ''saveExact'') then [''--exact''] else [])
               @ (if truthy (rawFlags ''saveTilde'') then [''--tilde''] else []);
             command = (if truthy (rawFlags ''global'') then ''global add'' else ''add'')
         in io_throw (MessageError (Lang ''installCommandRenamed''
                        [''yarn '' @ command @ '' '' @ js_join '' '' exampleArgs]))
       else
         wrapLifecycle E (\<lambda>w.
           case init E (new_Install E rawFlags lf w) of
             (Inl e, s) \<Rightarrow> (Inl e, world s)
           | (Inr _, s) \<Rightarrow> (Inr (), world s)))"

section \<open>Auxiliary definitions\<close>

text \<open>
  The pattern pushed for a dependency entry: the bare name when the lockfile has the
  name, the name with its range otherwise.
\<close>

definition emitted :: "Env \<Rightarrow> Lockfile \<Rightarrow> string \<times> string \<Rightarrow> string" where
  "emitted E lf entry =
     (if getLocked E lf (fst entry) True = None then fst entry @ ''@'' @ snd entry else fst entry)"

text \<open>
  The entries of a dependency map whose name is not excluded.
\<close>

definition kept :: "string list \<Rightarrow> string obj \<Rightarrow> string obj" where
  "kept excludeNames depMap = filter (\<lambda>entry. fst entry \<notin> set excludeNames) depMap"

text \<open>
  The patterns one call of \<open>pushDeps\<close> pushes: none when it returns at once.
\<close>

definition pushed :: "Env \<Rightarrow> string list \<Rightarrow> bool \<Rightarrow> Lockfile \<Rightarrow> RootManifest \<Rightarrow> string \<Rightarrow> bool \<Rightarrow> string list" where
  "pushed E ex iu lf json dt u =
     (if iu \<and> \<not> u then [] else map (emitted E lf) (kept ex (json_get json dt)))"

text \<open>
  The patterns pushed for \<open>dependencies\<close>, \<open>devDependencies\<close> and
  \<open>optionalDependencies\<close>.
\<close>

definition pushedDeps :: "Env \<Rightarrow> string list \<Rightarrow> bool \<Rightarrow> Lockfile \<Rightarrow> RootManifest \<Rightarrow> string list" where
  "pushedDeps E ex iu lf json = pushed E ex iu lf json ''dependencies'' True"

definition pushedDev :: "Env \<Rightarrow> string list \<Rightarrow> bool \<Rightarrow> Lockfile \<Rightarrow> RootManifest \<Rightarrow> string list" where
  "pushedDev E ex iu lf json =
     pushed E ex iu lf json ''devDependencies'' (\<not> production (config E))"

definition pushedOpt :: "Env \<Rightarrow> string list \<Rightarrow> bool \<Rightarrow> Lockfile \<Rightarrow> bool \<Rightarrow> RootManifest \<Rightarrow> string list" where
  "pushedOpt E ex iu lf ignoreOpt json =
     pushed E ex iu lf json ''optionalDependencies'' (\<not> ignoreOpt)"

text \<open>
  The three calls of \<open>pushDeps\<close> for one manifest, in the order of the source.
\<close>

definition pushAll :: "Env \<Rightarrow> string list \<Rightarrow> bool \<Rightarrow> string \<Rightarrow> RootManifest \<Rightarrow>
   InstallCwdRequest \<times> Install \<Rightarrow> InstallCwdRequest \<times> Install" where
  "pushAll E ex iu reg json acc0 =
     pushDeps E ex iu reg json ''optionalDependencies'' (Some ''optional'') True
       (\<not> ignoreOptional (flags (snd acc0)))
       (pushDeps E ex iu reg json ''devDependencies'' (Some ''dev'') False
          (\<not> production (config E))
          (pushDeps E ex iu reg json ''dependencies'' None False True acc0))"

text \<open>
  The location of a registry's root manifest.
\<close>

definition manifestLoc :: "Env \<Rightarrow> string \<times> string \<Rightarrow> string" where
  "manifestLoc E rf = path_join E (cwd (config E)) (snd rf)"

text \<open>
  The arrays of \<open>fetchRequestFromCwd\<close> before the registry loop.
\<close>

definition emptyRequest :: InstallCwdRequest where
  "emptyRequest = \<lparr>requests = [], patterns = [], ignorePatterns = [], usedPatterns = [],
                    manifest = None\<rparr>"

text \<open>
  The state once the registry is recorded and its manifest has been read.
\<close>

definition afterRead :: "string \<Rightarrow> string \<Rightarrow> Install \<Rightarrow> Install" where
  "afterRead reg loc s =
     s\<lparr>rootManifestRegistries := rootManifestRegistries s @ [reg],
       world := log_effect (ReadJson loc) (world s)\<rparr>"

text \<open>
  \<open>if (manifest.flat) this.flags.flat = true\<close>
\<close>

definition inheritFlat :: "RootManifest \<Rightarrow> Install \<Rightarrow> Install" where
  "inheritFlat json s =
     (if truthy (manifest_flat json) then s\<lparr>flags := (flags s)\<lparr>flat := True\<rparr>\<rparr> else s)"

text \<open>
  The dependency entries \<open>fetchRequestFromCwd\<close> processes for the manifest it returns, in
  the order in which it pushes their patterns: excluded names are skipped, and so is
  an unused dependency map under \<open>ignoreUnusedPatterns\<close>.
\<close>

definition processedEntries ::
  "Env \<Rightarrow> string list \<Rightarrow> bool \<Rightarrow> Flags \<Rightarrow> RootManifest option \<Rightarrow> (string \<times> string) list" where
  "processedEntries E excludePatterns ignoreUnusedPatterns fl man =
     (case man of
        None \<Rightarrow> []
      | Some json \<Rightarrow>
          kept (excludeNames_of E excludePatterns) (dependencies json)
          @ (if ignoreUnusedPatterns \<and> production (config E) then []
             else kept (excludeNames_of E excludePatterns) (devDependencies json))
          @ (if ignoreUnusedPatterns \<and> ignoreOptional fl then []
             else kept (excludeNames_of E excludePatterns) (optionalDependencies json)))"

text \<open>
  The calls \<open>pruneOfflineMirror\<close> makes.
\<close>

definition isMirrorEffect :: "effect \<Rightarrow> bool" where
  "isMirrorEffect ev = (case ev of Walk d \<Rightarrow> True | Unlink p \<Rightarrow> True | _ \<Rightarrow> False)"

text \<open>
  The calls added to the trace between two states.
\<close>

definition newEffects :: "Install \<Rightarrow> Install \<Rightarrow> effect list" where
  "newEffects s s' = drop (length (trace (world s))) (trace (world s'))"

text \<open>
  The command line that \<open>run\<close> suggests for positional arguments.
\<close>

definition addSuggestion :: "(string \<Rightarrow> jsval) \<Rightarrow> string list \<Rightarrow> string" where
  "addSuggestion rawFlags args =
     ''yarn '' @ (if truthy (rawFlags ''global'') then ''global add'' else ''add'') @ '' '' @
     js_join '' ''
       (args
        @ (if truthy (rawFlags ''saveDev'') then [''--dev''] else [])
        @ (if truthy (rawFlags ''savePeer'') then [''--peer''] else [])
        @ (if truthy (rawFlags ''saveOptional'') then [''--optional''] else [])
        @ (if truthy (rawFlags ''saveExact'') then [''--exact''] else [])
        @ (if truthy (rawFlags ''saveTilde'') then [''--tilde''] else []))"

text \<open>
  The calls of the fetch, link and script steps of the pipeline.
\<close>

definition isFetchLinkScript :: "effect \<Rightarrow> bool" where
  "isFetchLinkScript ev =
     (case ev of
        FetcherInit \<Rightarrow> True
      | CompatibilityInit \<Rightarrow> True
      | RemoveIntegrityFile \<Rightarrow> True
      | LinkerInit ps d \<Rightarrow> True
      | ScriptsInit ps \<Rightarrow> True
      | _ \<Rightarrow> False)"

text \<open>
  The flags that guard the integrity check, and the lockfile wrapper, are the same in
  both states.
\<close>

definition guardsKept :: "Install \<Rightarrow> Install \<Rightarrow> bool" where
  "guardsKept s s' =
     (frozenLockfile (flags s') = frozenLockfile (flags s) \<and>
      skipIntegrityCheck (flags s') = skipIntegrityCheck (flags s) \<and>
      force (flags s') = force (flags s) \<and>
      this_lockfile s' = this_lockfile s)"

text \<open>
  A computation adds only calls that satisfy \<open>P\<close> to the trace, and keeps the guards.
\<close>

definition emitsOnly :: "(effect \<Rightarrow> bool) \<Rightarrow> (Install, 'a) io \<Rightarrow> bool" where
  "emitsOnly P m =
     (\<forall>s. (\<exists>evs. trace (world (snd (m s))) = trace (world s) @ evs \<and> list_all P evs) \<and>
          guardsKept s (snd (m s)))"

text \<open>
  The array \<open>steps\<close> of \<open>init\<close>.
\<close>

definition pipelineSteps :: "Env \<Rightarrow> Install \<Rightarrow> step list" where
  "pipelineSteps E s =
     [StepResolve, StepFetch, StepLink, StepScripts]
     @ (if har (flags s) then [StepHar] else [])
     @ (if shouldClean E (world s) then [StepClean] else [])"

text \<open>
  \<open>init\<close> up to the call of \<open>bailout\<close> in its first step: the update check, the
  shrinkwrap warning, request collection, resolution and flattening. It returns the
  request, the steps and the flattened patterns.
\<close>

definition beforeBailout ::
  "Env \<Rightarrow> (Install, InstallCwdRequest \<times> step list \<times> string option list) io" where
  "beforeBailout E =
     io_bind (in_world (emit CheckUpdate)) (\<lambda>_.
     io_bind io_get (\<lambda>s0.
     io_bind (if fs_exists (world s0) (path_join E (cwd (config E)) ''npm-shrinkwrap.json'')
              then in_world (emit (ReporterWarn (Lang ''shrinkwrapWarning'' [])))
              else io_return ()) (\<lambda>_.
     io_bind (fetchRequestFromCwd E [] False) (\<lambda>req.
     io_bind io_get (\<lambda>s1.
     io_bind (in_world (emit (ReporterStep 1 (length (pipelineSteps E s1))
                (Lang ''resolvingPackages'' [])))) (\<lambda>_.
     io_bind (resolverInit E (prepareRequests (requests req))) (\<lambda>_.
     io_bind (flatten E (preparePatterns (patterns req))) (\<lambda>flattened.
     io_return (req, pipelineSteps E s1, flattened)))))))))"

text \<open>
  \<open>init\<close> from the result of \<open>bailout\<close> on.
\<close>

definition afterBailout ::
  "Env \<Rightarrow> InstallCwdRequest \<Rightarrow> step list \<Rightarrow> string option list \<Rightarrow> bool \<Rightarrow>
   (Install, string option list) io" where
  "afterBailout E req steps flattened b =
     io_bind (if b
              then io_return (True, \<lparr>topLevelPatterns = preparePatterns (patterns req),
                                     flattenedTopLevelPatterns = flattened\<rparr>)
              else runSteps E req (tl steps) 1 (length steps)
                     \<lparr>topLevelPatterns = preparePatterns (patterns req),
                       flattenedTopLevelPatterns = flattened\<rparr>) (\<lambda>res.
       if fst res then io_return (flattenedTopLevelPatterns (snd res))
       else
         io_bind (saveLockfileAndIntegrity E (topLevelPatterns (snd res))) (\<lambda>_.
         io_bind (in_world (emit MaybeOutputUpdate)) (\<lambda>_.
         io_bind (in_world (perform E ClearCache)) (\<lambda>_.
         io_return (flattenedTopLevelPatterns (snd res))))))"

text \<open>
  The root manifest that \<open>fetchRequestFromCwd\<close> finds in the working directory: the
  normalised manifest of the first registry whose manifest file exists.
\<close>

definition cwdManifest :: "Env \<Rightarrow> Install \<Rightarrow> RootManifest option" where
  "cwdManifest E s =
     (case find (\<lambda>rf. fs_exists (world s) (manifestLoc E rf)) (registries E) of
        None \<Rightarrow> None
      | Some rf \<Rightarrow>
          (case readJson E (world s) (manifestLoc E rf) of
             Inl e \<Rightarrow> None
           | Inr json0 \<Rightarrow>
               (case normalizeManifest E json0 of Inl e \<Rightarrow> None | Inr json \<Rightarrow> Some json)))"

text \<open>
  The dependency entries pushed with \<open>isUsed\<close> true: those of \<open>dependencies\<close>, of
  \<open>devDependencies\<close> outside production mode, and of \<open>optionalDependencies\<close> unless
  \<open>ignoreOptional\<close> is set.
\<close>

definition usedEntries ::
  "Env \<Rightarrow> string list \<Rightarrow> Flags \<Rightarrow> RootManifest option \<Rightarrow> (string \<times> string) list" where
  "usedEntries E excludePatterns fl man =
     (case man of
        None \<Rightarrow> []
      | Some json \<Rightarrow>
          kept (excludeNames_of E excludePatterns) (dependencies json)
          @ (if production (config E) then []
             else kept (excludeNames_of E excludePatterns) (devDependencies json))
          @ (if ignoreOptional fl then []
             else kept (excludeNames_of E excludePatterns) (optionalDependencies json)))"

text \<open>
  The dependency entries pushed with \<open>isUsed\<close> false: none under
  \<open>ignoreUnusedPatterns\<close>, otherwise those of \<open>devDependencies\<close> in production mode
  and of \<open>optionalDependencies\<close> under \<open>ignoreOptional\<close>.
\<close>

definition unusedEntries ::
  "Env \<Rightarrow> string list \<Rightarrow> bool \<Rightarrow> Flags \<Rightarrow> RootManifest option \<Rightarrow> (string \<times> string) list" where
  "unusedEntries E excludePatterns ignoreUnusedPatterns fl man =
     (case man of
        None \<Rightarrow> []
      | Some json \<Rightarrow>
          if ignoreUnusedPatterns then []
          else (if production (config E)
                then kept (excludeNames_of E excludePatterns) (devDependencies json) else [])
             @ (if ignoreOptional fl
                then kept (excludeNames_of E excludePatterns) (optionalDependencies json)
                else []))"

section \<open>Example inputs\<close>

text \<open>
  A project with a \<open>package.json\<close>, a \<open>yarn.json\<close> and a lockfile that pins
  \<open>left-pad\<close>; the collaborators answer as simple functions of their arguments and
  no call fails.
\<close>

definition exampleConfig :: Config where
  "exampleConfig =
     \<lparr>cwd = ''/project'', production = False, getOption = (\<lambda>_. JSUndefined),
      modulesFolder = None, config_pruneOfflineMirror = False, getOfflineMirrorPath = None,
      config_registries = [(''npm'', ''node_modules''), (''yarn'', ''node_modules'')]\<rparr>"

definition packageJson :: RootManifest where
  "packageJson =
     \<lparr>dependencies = [(''left-pad'', ''^1.1.0''), (''chalk'', ''^1.0.0'')],
      devDependencies = [(''mocha'', ''^3.0.0'')],
      optionalDependencies = [(''fsevents'', ''^1.0.0'')],
      manifest_resolutions = [],
      manifest_flat = JSUndefined\<rparr>"

definition yarnJson :: RootManifest where
  "yarnJson =
     \<lparr>dependencies = [(''other'', ''1.0.0'')],
      devDependencies = [],
      optionalDependencies = [],
      manifest_resolutions = [],
      manifest_flat = JSUndefined\<rparr>"

definition exampleLockfile :: Lockfile where
  "exampleLockfile =
     \<lparr>cache = Some [(''left-pad'',
        \<lparr>resolved = Some ''https://registry.yarnpkg.com/left-pad/-/left-pad-1.1.3.tgz#abc'',
          lock_version = ''1.1.3''\<rparr>)]\<rparr>"

definition exampleResolve :: "DependencyRequestPattern list \<Rightarrow> PackageResolver" where
  "exampleResolve reqs =
     \<lparr>resolver_patterns =
        map (\<lambda>iq. (req_pattern (snd iq),
                    \<lparr>pkg_name = takeWhile (\<lambda>c. c \<noteq> CHR ''@'') (req_pattern (snd iq)),
                      version = ''1.1.3'', reference = Some (fst iq)\<rparr>))
          (enumerate 0 reqs),
      patternsByPackage =
        map (\<lambda>q. (takeWhile (\<lambda>c. c \<noteq> CHR ''@'') (req_pattern q), [req_pattern q])) reqs,
      usedRegistries = remdups (map req_registry reqs),
      references =
        map (\<lambda>q. \<lparr>ref_requests = [req_pattern q], ignore = False,
                    ref_patterns = [req_pattern q], ref_registry = req_registry q\<rparr>) reqs,
      opaque_state = 0\<rparr>"

definition exampleEnv :: Env where
  "exampleEnv =
     \<lparr>config = exampleConfig,
      registries = [(''npm'', ''package.json''), (''yarn'', ''yarn.json'')],
      LOCKFILE_FILENAME = ''yarn.lock'',
      CLEAN_FILENAME = ''.yarnclean'',
      path_join = (\<lambda>a b. a @ ''/'' @ b),
      path_basename = (\<lambda>p. rev (takeWhile (\<lambda>c. c \<noteq> CHR ''/'') (rev p))),
      path_inside = (\<lambda>dir p. take (Suc (length dir)) p = dir @ ''/''),
      toISOString = (\<lambda>_. ''2017-03-01T10:20:30.000Z''),
      getExoticResolver = (\<lambda>_. False),
      normalizePattern_name = takeWhile (\<lambda>c. c \<noteq> CHR ''@''),
      readJson = (\<lambda>w loc. if loc = ''/project/package.json'' then Inr packageJson
                           else if loc = ''/project/yarn.json'' then Inr yarnJson
                           else Inl (CollaboratorError ''ENOENT'')),
      normalizeManifest = Inr,
      fromDirectory = (\<lambda>w dir. Inr exampleLockfile),
      getLocked = (\<lambda>lf p ignoreVersion. case cache lf of None \<Rightarrow> None | Some c \<Rightarrow> map_of c p),
      getLockfile = (\<lambda>lf ps. Inr (map (\<lambda>entry. (fst entry,
                        \<lparr>resolved = Some (''https://registry.yarnpkg.com/'' @ pkg_name (snd entry)
                                           @ ''/-/'' @ pkg_name (snd entry) @ ''-''
                                           @ version (snd entry) @ ''.tgz#abc''),
                          lock_version = version (snd entry)\<rparr>)) ps)),
      resolver_init = (\<lambda>w r reqs fl. Inr (exampleResolve reqs)),
      getAllDependencyNamesByLevelOrder = (\<lambda>r ps. map fst (patternsByPackage r)),
      getAllInfoForPackageName = (\<lambda>r name. map snd (filter (\<lambda>entry. pkg_name (snd entry) = name) (resolver_patterns r))),
      collapseAllVersionsOfPackage = (\<lambda>r name v. Inr (name @ ''@'' @ v, r)),
      getResolvedPattern = (\<lambda>r p. map_of (resolver_patterns r) p),
      getStrictResolvedPattern = (\<lambda>r p. case map_of (resolver_patterns r) p of
          None \<Rightarrow> Inl (InvariantViolation ''expected manifest'') | Some m \<Rightarrow> Inr m),
      getManifests = (\<lambda>r. map snd (resolver_patterns r)),
      updateManifest = (\<lambda>r i m. Inr r),
      generateHardModulePath = (\<lambda>ref. ''/project/node_modules''),
      readManifest = (\<lambda>w loc. Inl (CollaboratorError ''ENOENT'')),
      integrity_check = (\<lambda>w ps c fl. Inr \<lparr>integrityMatches = False, integrityFileMissing = True,
          missingPatterns = filter (\<lambda>p. map_of c p = None) ps\<rparr>),
      reporter_select = (\<lambda>w m a options. Inl (CollaboratorError ''not interactive'')),
      getRootManifests = (\<lambda>w. Inr [(''npm'', packageJson)]),
      throws = (\<lambda>w ev. None)\<rparr>"

definition exampleWorld :: World where
  "exampleWorld =
     \<lparr>files = [''/project/package.json'', ''/project/yarn.json'', ''/project/yarn.lock''],
      trace = []\<rparr>"

definition exampleInstall :: Install where
  "exampleInstall = new_Install exampleEnv (\<lambda>_. JSUndefined) exampleLockfile exampleWorld"

definition exampleRequest :: InstallCwdRequest where
  "exampleRequest =
     \<lparr>requests =
        [\<lparr>req_pattern = ''left-pad'', req_registry = ''npm'', req_hint = None, req_optional = False\<rparr>,
         \<lparr>req_pattern = ''chalk@^1.0.0'', req_registry = ''npm'', req_hint = None, req_optional = False\<rparr>,
         \<lparr>req_pattern = ''mocha@^3.0.0'', req_registry = ''npm'', req_hint = Some ''dev'', req_optional = False\<rparr>,
         \<lparr>req_pattern = ''fsevents@^1.0.0'', req_registry = ''npm'', req_hint = Some ''optional'', req_optional = True\<rparr>],
      patterns = [''left-pad'', ''chalk@^1.0.0'', ''mocha@^3.0.0'', ''fsevents@^1.0.0''],
      ignorePatterns = [],
      usedPatterns = [''left-pad'', ''chalk@^1.0.0'', ''mocha@^3.0.0'', ''fsevents@^1.0.0''],
      manifest = Some packageJson\<rparr>"

definition exampleInstallAfter :: Install where
  "exampleInstallAfter =
     exampleInstall\<lparr>
       rootManifestRegistries := [''npm''],
       rootPatternsToOrigin :=
         [(''left-pad'', ''dependencies''), (''chalk@^1.0.0'', ''dependencies''),
          (''mocha@^3.0.0'', ''devDependencies''), (''fsevents@^1.0.0'', ''optionalDependencies'')],
       world := exampleWorld\<lparr>trace := [ReadJson ''/project/package.json'']\<rparr>\<rparr>"

text \<open>
  A manifest in which a pattern is pushed twice, read in production mode: the
  dependency \<open>a\<close> with range \<open>^1.0.0\<close>, and a locked dev dependency whose name is
  \<open>a@^1.0.0\<close>.
\<close>

definition aliasJson :: RootManifest where
  "aliasJson =
     \<lparr>dependencies = [(''a'', ''^1.0.0'')],
      devDependencies = [(''a@^1.0.0'', ''*'')],
      optionalDependencies = [],
      manifest_resolutions = [],
      manifest_flat = JSUndefined\<rparr>"

definition productionEnv :: "RootManifest \<Rightarrow> Env" where
  "productionEnv json =
     exampleEnv\<lparr>config := exampleConfig\<lparr>production := True\<rparr>,
                 readJson := (\<lambda>w loc. Inr json)\<rparr>"

definition aliasInstall :: Install where
  "aliasInstall =
     new_Install exampleEnv (\<lambda>_. JSUndefined)
       \<lparr>cache = Some [(''a@^1.0.0'',
           \<lparr>resolved = Some ''https://registry.yarnpkg.com/a/-/a-1.0.0.tgz#abc'',
             lock_version = ''1.0.0''\<rparr>)]\<rparr>
       exampleWorld"

text \<open>
  A registry table whose first manifest is absent.
\<close>

definition threeRegistriesEnv :: Env where
  "threeRegistriesEnv =
     exampleEnv\<lparr>registries :=
       [(''bower'', ''bower.json''), (''npm'', ''package.json''), (''yarn'', ''yarn.json'')]\<rparr>"

text \<open>
  An offline mirror with one stale tarball.
\<close>

definition mirrorEnv :: Env where
  "mirrorEnv =
     exampleEnv\<lparr>config := exampleConfig\<lparr>getOfflineMirrorPath := Some ''/mirror'',
                                           config_pruneOfflineMirror := True\<rparr>\<rparr>"

definition mirrorWorld :: World where
  "mirrorWorld =
     \<lparr>files = [''/mirror/x-1.tgz'', ''/mirror/y-2.tgz'', ''/mirror/z-old.tgz'',
               ''/project/package.json''],
      trace = []\<rparr>"

definition mirrorLockfileImage :: "LockManifest obj" where
  "mirrorLockfileImage =
     [(''x@^1.0.0'', \<lparr>resolved = Some ''https://registry.yarnpkg.com/x/-/x-1.tgz#0a1b2c'',
                      lock_version = ''1.0.0''\<rparr>),
      (''y@^2.0.0'', \<lparr>resolved = Some ''https://registry.yarnpkg.com/y/-/y-2.tgz'',
                      lock_version = ''2.0.0''\<rparr>),
      (''w@file:../w'', \<lparr>resolved = None, lock_version = ''0.0.0''\<rparr>)]"

text \<open>
  Resolver states with and without a pattern that the lockfile lacks.
\<close>

definition exampleResolver :: PackageResolver where
  "exampleResolver =
     \<lparr>resolver_patterns =
        [(''left-pad'', \<lparr>pkg_name = ''left-pad'', version = ''1.1.3'', reference = Some 0\<rparr>),
         (''chalk@^1.0.0'', \<lparr>pkg_name = ''chalk'', version = ''1.1.3'', reference = Some 1\<rparr>)],
      patternsByPackage = [(''left-pad'', [''left-pad'']), (''chalk'', [''chalk@^1.0.0''])],
      usedRegistries = [''npm''],
      references =
        [\<lparr>ref_requests = [''left-pad''], ignore = False, ref_patterns = [''left-pad''],
          ref_registry = ''npm''\<rparr>,
         \<lparr>ref_requests = [''chalk@^1.0.0''], ignore = False, ref_patterns = [''chalk@^1.0.0''],
          ref_registry = ''npm''\<rparr>],
      opaque_state = 0\<rparr>"

definition lockedResolver :: PackageResolver where
  "lockedResolver =
     \<lparr>resolver_patterns =
        [(''left-pad'', \<lparr>pkg_name = ''left-pad'', version = ''1.1.3'', reference = Some 0\<rparr>)],
      patternsByPackage = [(''left-pad'', [''left-pad''])],
      usedRegistries = [''npm''],
      references =
        [\<lparr>ref_requests = [''left-pad''], ignore = False, ref_patterns = [''left-pad''],
          ref_registry = ''npm''\<rparr>],
      opaque_state = 0\<rparr>"

definition noLockfileInstall :: Install where
  "noLockfileInstall =
     new_Install exampleEnv (\<lambda>k. if k = ''lockfile'' then JSBool False else JSUndefined)
       \<lparr>cache = None\<rparr> exampleWorld"

definition exampleCandidate :: "LockManifest obj" where
  "exampleCandidate =
     [(''left-pad'',
        \<lparr>resolved = Some ''https://registry.yarnpkg.com/left-pad/-/left-pad-1.1.3.tgz#abc'',
          lock_version = ''1.1.3''\<rparr>),
      (''chalk@^1.0.0'',
        \<lparr>resolved = Some ''https://registry.yarnpkg.com/chalk/-/chalk-1.1.3.tgz#abc'',
          lock_version = ''1.1.3''\<rparr>)]"

text \<open>
  A lockfile that cannot be parsed.
\<close>

definition brokenLockfileEnv :: Env where
  "brokenLockfileEnv =
     exampleEnv\<lparr>fromDirectory :=
       (\<lambda>w dir. Inl (CollaboratorError ''SyntaxError: Unknown token 1:1 in yarn.lock''))\<rparr>"

text \<open>
  Installs with \<open>--frozen-lockfile\<close>: alone, with \<open>--force\<close>, and with no lockfile.
\<close>

definition frozenFlags :: "string \<Rightarrow> jsval" where
  "frozenFlags = (\<lambda>k. if k = ''frozenLockfile'' then JSBool True else JSUndefined)"

definition frozenForceFlags :: "string \<Rightarrow> jsval" where
  "frozenForceFlags =
     (\<lambda>k. if k = ''frozenLockfile'' \<or> k = ''force'' then JSBool True else JSUndefined)"

definition frozenInstall :: Install where
  "frozenInstall = new_Install exampleEnv frozenFlags exampleLockfile exampleWorld"

definition frozenForceInstall :: Install where
  "frozenForceInstall = new_Install exampleEnv frozenForceFlags exampleLockfile exampleWorld"

definition frozenNoLockfileInstall :: Install where
  "frozenNoLockfileInstall =
     new_Install exampleEnv frozenFlags \<lparr>cache = None\<rparr>
       \<lparr>files = [''/project/package.json'', ''/project/yarn.json''], trace = []\<rparr>"

definition frozenAtBailout :: Install where
  "frozenAtBailout =
     frozenInstall\<lparr>
       rootManifestRegistries := [''npm''],
       rootPatternsToOrigin :=
         [(''left-pad'', ''dependencies''), (''chalk@^1.0.0'', ''dependencies''),
          (''mocha@^3.0.0'', ''devDependencies''), (''fsevents@^1.0.0'', ''optionalDependencies'')],
       resolver := exampleResolve (requests exampleRequest),
       world := exampleWorld\<lparr>trace :=
         [CheckUpdate, ReadJson ''/project/package.json'',
          ReporterStep 1 4 (Lang ''resolvingPackages'' []),
          ResolverInit (requests exampleRequest) False]\<rparr>\<rparr>"

text \<open>
  A flat project with a resolution.
\<close>

definition flatJson :: RootManifest where
  "flatJson =
     \<lparr>dependencies = [(''left-pad'', ''^1.1.0''), (''chalk'', ''^1.0.0'')],
      devDependencies = [],
      optionalDependencies = [],
      manifest_resolutions = [(''chalk'', ''1.1.3'')],
      manifest_flat = JSBool True\<rparr>"

definition flatEnv :: Env where
  "flatEnv =
     exampleEnv\<lparr>readJson := (\<lambda>w loc. Inr flatJson),
                 getRootManifests := (\<lambda>w. Inr [(''npm'', flatJson)])\<rparr>"

text \<open>
  A configuration that forces \<open>force\<close> and \<open>ignore-scripts\<close>, and raw flags that turn
  \<open>force\<close> off and \<open>ignoreEngines\<close> on.
\<close>

definition forcingConfig :: Config where
  "forcingConfig =
     exampleConfig\<lparr>getOption :=
       (\<lambda>k. if k = ''force'' \<or> k = ''ignore-scripts'' then JSBool True else JSUndefined)\<rparr>"

definition forcedRawFlags :: "string \<Rightarrow> jsval" where
  "forcedRawFlags =
     (\<lambda>k. if k = ''force'' then JSBool False
          else if k = ''ignoreEngines'' then JSString ''yes'' else JSUndefined)"

text \<open>
  The request collected from \<open>package.json\<close> in production mode.
\<close>

definition productionRequest :: InstallCwdRequest where
  "productionRequest =
     \<lparr>requests =
        [\<lparr>req_pattern = ''left-pad'', req_registry = ''npm'', req_hint = None, req_optional = False\<rparr>,
         \<lparr>req_pattern = ''chalk@^1.0.0'', req_registry = ''npm'', req_hint = None, req_optional = False\<rparr>,
         \<lparr>req_pattern = ''mocha@^3.0.0'', req_registry = ''npm'', req_hint = Some ''dev'', req_optional = False\<rparr>,
         \<lparr>req_pattern = ''fsevents@^1.0.0'', req_registry = ''npm'', req_hint = Some ''optional'', req_optional = True\<rparr>],
      patterns = [''left-pad'', ''chalk@^1.0.0'', ''mocha@^3.0.0'', ''fsevents@^1.0.0''],
      ignorePatterns = [''mocha@^3.0.0''],
      usedPatterns = [''left-pad'', ''chalk@^1.0.0'', ''fsevents@^1.0.0''],
      manifest = Some packageJson\<rparr>"

text \<open>
  An environment in which the fetcher fails, and no other call does.
\<close>

definition fetcherFailsEnv :: Env where
  "fetcherFailsEnv =
     exampleEnv\<lparr>throws := (\<lambda>w ev. if ev = FetcherInit then Some (CollaboratorError ''ENOTFOUND'')
                                  else None)\<rparr>"

section \<open>Auxiliary lemmas\<close>

lemma io_bind_apply:
  "io_bind m f s = (case m s of (Inl e, s') \<Rightarrow> (Inl e, s') | (Inr x, s') \<Rightarrow> f x s')"
  by (simp add: io_bind_def)

lemma io_bind_Inl: "m s = (Inl e, s') \<Longrightarrow> io_bind m f s = (Inl e, s')"
  by (simp add: io_bind_def)

lemma io_bind_Inr: "m s = (Inr x, s') \<Longrightarrow> io_bind m f s = f x s'"
  by (simp add: io_bind_def)

lemma io_return_apply: "io_return x s = (Inr x, s)"
  by (simp add: io_return_def)

lemma io_throw_apply: "io_throw e s = (Inl e, s)"
  by (simp add: io_throw_def)

lemma io_get_apply: "io_get s = (Inr s, s)"
  by (simp add: io_get_def)

lemma io_modify_apply: "io_modify f s = (Inr (), f s)"
  by (simp add: io_modify_def)

lemma io_of_sum_apply: "io_of_sum r s = (r, s)"
  by (simp add: io_of_sum_def)

lemma in_world_apply:
  "in_world m s = (fst (m (world s)), s\<lparr>world := snd (m (world s))\<rparr>)"
  by (simp add: in_world_def split: prod.splits)

lemma emit_apply: "emit ev w = (Inr (), log_effect ev w)"
  by (simp add: emit_def io_modify_def)

lemma ask_apply: "ask ev answer w = (answer w, log_effect ev w)"
  by (simp add: ask_def)

lemmas io_simps = io_bind_apply io_return_apply io_throw_apply io_get_apply io_modify_apply
  io_of_sum_apply in_world_apply emit_apply ask_apply

lemma obj_set_name:
  "k \<noteq> [] \<Longrightarrow> \<not> isDigit (hd k) \<Longrightarrow> obj_set k v ob = obj_put k v ob"
  by (cases k) (simp_all add: obj_set_def isArrayIndex_def)

lemma obj_set_array_index:
  "obj_set ''7'' v [(''2'', a), (''10'', b), (''chalk'', c)] =
     [(''2'', a), (''7'', v), (''10'', b), (''chalk'', c)]"
  "obj_set ''10'' v [(''2'', a), (''10'', b), (''chalk'', c)] =
     [(''2'', a), (''10'', v), (''chalk'', c)]"
  "obj_set ''07'' v [(''2'', a), (''10'', b), (''chalk'', c)] =
     [(''2'', a), (''10'', b), (''chalk'', c), (''07'', v)]"
  by (simp_all add: obj_set_def isArrayIndex_def isDigit_def indexBefore_def indexValue_def
      digitValue_def)

lemma pushDep_snd:
  "\<exists>origin. snd (pushDep E ex reg dt h ol u entry acc) = (snd acc)\<lparr>rootPatternsToOrigin := origin\<rparr>"
  unfolding pushDep_def Let_def
  by (cases "fst entry \<in> set ex") (auto intro: exI[of _ "rootPatternsToOrigin (snd acc)"])

lemma fold_pushDep_snd:
  "\<exists>origin. snd (fold (pushDep E ex reg dt h ol u) entries acc) = (snd acc)\<lparr>rootPatternsToOrigin := origin\<rparr>"
proof (induction entries arbitrary: acc)
  case Nil
  show ?case by (auto intro: exI[of _ "rootPatternsToOrigin (snd acc)"])
next
  case (Cons entry entries)
  obtain o1 where o1: "snd (pushDep E ex reg dt h ol u entry acc) = (snd acc)\<lparr>rootPatternsToOrigin := o1\<rparr>"
    using pushDep_snd by blast
  obtain o2 where o2: "snd (fold (pushDep E ex reg dt h ol u) entries (pushDep E ex reg dt h ol u entry acc))
     = (snd (pushDep E ex reg dt h ol u entry acc))\<lparr>rootPatternsToOrigin := o2\<rparr>"
    using Cons.IH by blast
  show ?case using o1 o2 by (auto)
qed

lemma fold_pushDep_fst:
  "fst (fold (pushDep E ex reg dt h ol u) entries acc) =
     (fst acc)\<lparr>
        usedPatterns := usedPatterns (fst acc) @
          (if u then map (emitted E (this_lockfile (snd acc))) (kept ex entries) else []),
        ignorePatterns := ignorePatterns (fst acc) @
          (if u then [] else map (emitted E (this_lockfile (snd acc))) (kept ex entries)),
        patterns := patterns (fst acc) @ map (emitted E (this_lockfile (snd acc))) (kept ex entries),
        requests := requests (fst acc) @
          map (\<lambda>p. \<lparr>req_pattern = p, req_registry = reg, req_hint = h, req_optional = ol\<rparr>)
            (map (emitted E (this_lockfile (snd acc))) (kept ex entries))\<rparr>"
proof (induction entries arbitrary: acc)
  case Nil
  show ?case by (simp add: kept_def)
next
  case (Cons entry entries)
  obtain o1 where o1: "snd (pushDep E ex reg dt h ol u entry acc) = (snd acc)\<lparr>rootPatternsToOrigin := o1\<rparr>"
    using pushDep_snd by blast
  have lf: "this_lockfile (snd (pushDep E ex reg dt h ol u entry acc)) = this_lockfile (snd acc)"
    using o1 by simp
  show ?case
    apply (simp only: fold_simps Cons.IH lf)
    apply (simp add: pushDep_def Let_def kept_def emitted_def)
    done
qed

lemma fold_pushDep_snd_eq:
  "snd (fold (pushDep E ex reg dt h ol u) entries acc) =
     (snd acc)\<lparr>rootPatternsToOrigin :=
        fold (\<lambda>p. obj_set p dt) (map (emitted E (this_lockfile (snd acc))) (kept ex entries))
          (rootPatternsToOrigin (snd acc))\<rparr>"
proof (induction entries arbitrary: acc)
  case Nil
  show ?case by (simp add: kept_def)
next
  case (Cons entry entries)
  obtain o1 where o1: "snd (pushDep E ex reg dt h ol u entry acc) = (snd acc)\<lparr>rootPatternsToOrigin := o1\<rparr>"
    using pushDep_snd by blast
  have lf: "this_lockfile (snd (pushDep E ex reg dt h ol u entry acc)) = this_lockfile (snd acc)"
    using o1 by simp
  show ?case
    apply (simp only: fold_simps Cons.IH lf)
    apply (simp add: pushDep_def Let_def kept_def emitted_def)
    done
qed

lemma pushDeps_fst:
  "fst (pushDeps E ex iu reg json dt h ol u acc) =
     (fst acc)\<lparr>
        usedPatterns := usedPatterns (fst acc) @
          (if u then pushed E ex iu (this_lockfile (snd acc)) json dt u else []),
        ignorePatterns := ignorePatterns (fst acc) @
          (if u then [] else pushed E ex iu (this_lockfile (snd acc)) json dt u),
        patterns := patterns (fst acc) @ pushed E ex iu (this_lockfile (snd acc)) json dt u,
        requests := requests (fst acc) @
          map (\<lambda>p. \<lparr>req_pattern = p, req_registry = reg, req_hint = h, req_optional = ol\<rparr>)
            (pushed E ex iu (this_lockfile (snd acc)) json dt u)\<rparr>"
  by (simp add: pushDeps_def pushed_def fold_pushDep_fst)

lemma pushDeps_snd:
  "snd (pushDeps E ex iu reg json dt h ol u acc) =
     (snd acc)\<lparr>rootPatternsToOrigin :=
        fold (\<lambda>p. obj_set p dt) (pushed E ex iu (this_lockfile (snd acc)) json dt u)
          (rootPatternsToOrigin (snd acc))\<rparr>"
  by (simp add: pushDeps_def pushed_def fold_pushDep_snd_eq)

lemma pushDeps_patterns:
  "patterns (fst (pushDeps E ex iu reg json dt h ol u acc)) =
     patterns (fst acc) @ pushed E ex iu (this_lockfile (snd acc)) json dt u"
  by (simp add: pushDeps_fst)

lemma pushDeps_usedPatterns:
  "usedPatterns (fst (pushDeps E ex iu reg json dt h ol u acc)) =
     usedPatterns (fst acc) @ (if u then pushed E ex iu (this_lockfile (snd acc)) json dt u else [])"
  by (simp add: pushDeps_fst)

lemma pushDeps_ignorePatterns:
  "ignorePatterns (fst (pushDeps E ex iu reg json dt h ol u acc)) =
     ignorePatterns (fst acc) @ (if u then [] else pushed E ex iu (this_lockfile (snd acc)) json dt u)"
  by (simp add: pushDeps_fst)

lemma pushDeps_requests:
  "requests (fst (pushDeps E ex iu reg json dt h ol u acc)) =
     requests (fst acc) @
       map (\<lambda>p. \<lparr>req_pattern = p, req_registry = reg, req_hint = h, req_optional = ol\<rparr>)
         (pushed E ex iu (this_lockfile (snd acc)) json dt u)"
  by (simp add: pushDeps_fst)

lemma pushDeps_manifest:
  "manifest (fst (pushDeps E ex iu reg json dt h ol u acc)) = manifest (fst acc)"
  by (simp add: pushDeps_fst)

lemma pushDeps_frame:
  "this_lockfile (snd (pushDeps E ex iu reg json dt h ol u acc)) = this_lockfile (snd acc)"
  "flags (snd (pushDeps E ex iu reg json dt h ol u acc)) = flags (snd acc)"
  "world (snd (pushDeps E ex iu reg json dt h ol u acc)) = world (snd acc)"
  "resolver (snd (pushDeps E ex iu reg json dt h ol u acc)) = resolver (snd acc)"
  "resolutions (snd (pushDeps E ex iu reg json dt h ol u acc)) = resolutions (snd acc)"
  "rootManifestRegistries (snd (pushDeps E ex iu reg json dt h ol u acc)) =
     rootManifestRegistries (snd acc)"
  by (simp_all add: pushDeps_snd)

lemmas pushDeps_simps = pushDeps_patterns pushDeps_usedPatterns pushDeps_ignorePatterns
  pushDeps_requests pushDeps_manifest pushDeps_frame

lemma collectManifest_eq:
  "collectManifest E ex iu reg loc req s =
     (case readJson E (world s) loc of
        Inl e \<Rightarrow> (Inl e, s\<lparr>rootManifestRegistries := rootManifestRegistries s @ [reg],
                            world := log_effect (ReadJson loc) (world s)\<rparr>)
      | Inr json0 \<Rightarrow>
          (case normalizeManifest E json0 of
             Inl e \<Rightarrow> (Inl e, s\<lparr>rootManifestRegistries := rootManifestRegistries s @ [reg],
                                 world := log_effect (ReadJson loc) (world s)\<rparr>)
           | Inr json \<Rightarrow>
               (let acc = pushAll E ex iu reg json
                     (req\<lparr>manifest := Some json\<rparr>,
                      s\<lparr>rootManifestRegistries := rootManifestRegistries s @ [reg],
                        world := log_effect (ReadJson loc) (world s),
                        resolutions := obj_assign (resolutions s) (manifest_resolutions json)\<rparr>)
                in (Inr (fst acc), snd acc))))"
  by (simp add: collectManifest_def pushAll_def io_simps Let_def split: sum.splits)

lemma pushAll_simps:
  "patterns (fst (pushAll E ex iu reg json acc)) =
     patterns (fst acc) @ pushedDeps E ex iu (this_lockfile (snd acc)) json
        @ pushedDev E ex iu (this_lockfile (snd acc)) json
        @ pushedOpt E ex iu (this_lockfile (snd acc)) (ignoreOptional (flags (snd acc))) json"
  "usedPatterns (fst (pushAll E ex iu reg json acc)) =
     usedPatterns (fst acc) @ pushedDeps E ex iu (this_lockfile (snd acc)) json
        @ (if production (config E) then [] else pushedDev E ex iu (this_lockfile (snd acc)) json)
        @ (if ignoreOptional (flags (snd acc)) then []
           else pushedOpt E ex iu (this_lockfile (snd acc)) (ignoreOptional (flags (snd acc))) json)"
  "ignorePatterns (fst (pushAll E ex iu reg json acc)) =
     ignorePatterns (fst acc)
        @ (if production (config E) then pushedDev E ex iu (this_lockfile (snd acc)) json else [])
        @ (if ignoreOptional (flags (snd acc))
           then pushedOpt E ex iu (this_lockfile (snd acc)) (ignoreOptional (flags (snd acc))) json
           else [])"
  "map req_pattern (requests (fst (pushAll E ex iu reg json acc))) =
     map req_pattern (requests (fst acc)) @ pushedDeps E ex iu (this_lockfile (snd acc)) json
        @ pushedDev E ex iu (this_lockfile (snd acc)) json
        @ pushedOpt E ex iu (this_lockfile (snd acc)) (ignoreOptional (flags (snd acc))) json"
  "req_registry ` set (requests (fst (pushAll E ex iu reg json acc))) \<subseteq>
     insert reg (req_registry ` set (requests (fst acc)))"
  "manifest (fst (pushAll E ex iu reg json acc)) = manifest (fst acc)"
  "this_lockfile (snd (pushAll E ex iu reg json acc)) = this_lockfile (snd acc)"
  "flags (snd (pushAll E ex iu reg json acc)) = flags (snd acc)"
  "world (snd (pushAll E ex iu reg json acc)) = world (snd acc)"
  "resolver (snd (pushAll E ex iu reg json acc)) = resolver (snd acc)"
  "resolutions (snd (pushAll E ex iu reg json acc)) = resolutions (snd acc)"
  "rootManifestRegistries (snd (pushAll E ex iu reg json acc)) = rootManifestRegistries (snd acc)"
  by (auto simp add: pushAll_def pushDeps_simps pushedDeps_def pushedDev_def pushedOpt_def o_def)

lemma registryLoop_find:
  "registryLoop E ex iu regs req s =
     (case find (\<lambda>rf. fs_exists (world s) (manifestLoc E rf)) regs of
        None \<Rightarrow> (Inr req, s)
      | Some rf \<Rightarrow> collectManifest E ex iu (fst rf) (manifestLoc E rf) req s)"
  by (induction regs) (auto simp: manifestLoc_def Let_def)

lemma find_first:
  assumes "regs = pre @ rf # post" "\<forall>x \<in> set pre. \<not> P x" "P rf"
  shows "find P regs = Some rf"
  using assms by (induction pre arbitrary: regs) auto

lemma emptyRequest_simps:
  "requests emptyRequest = []" "patterns emptyRequest = []" "ignorePatterns emptyRequest = []"
  "usedPatterns emptyRequest = []" "manifest emptyRequest = None"
  by (simp_all add: emptyRequest_def)

lemma fetchRequestFromCwd_eq:
  "fetchRequestFromCwd E exP iu s =
     (case find (\<lambda>rf. fs_exists (world s) (manifestLoc E rf)) (registries E) of
        None \<Rightarrow> (Inr emptyRequest, s)
      | Some rf \<Rightarrow>
          (case readJson E (world s) (manifestLoc E rf) of
             Inl e \<Rightarrow> (Inl e, afterRead (fst rf) (manifestLoc E rf) s)
           | Inr json0 \<Rightarrow>
               (case normalizeManifest E json0 of
                  Inl e \<Rightarrow> (Inl e, afterRead (fst rf) (manifestLoc E rf) s)
                | Inr json \<Rightarrow>
                    (let acc = pushAll E (excludeNames_of E exP) iu (fst rf) json
                          (emptyRequest\<lparr>manifest := Some json\<rparr>,
                           (afterRead (fst rf) (manifestLoc E rf) s)
                             \<lparr>resolutions := obj_assign (resolutions s) (manifest_resolutions json)\<rparr>)
                     in (Inr (fst acc), inheritFlat json (snd acc))))))"
  unfolding fetchRequestFromCwd_def
  apply (simp add: io_bind_apply registryLoop_find emptyRequest_def[symmetric])
  apply (simp add: collectManifest_eq afterRead_def inheritFlat_def io_simps Let_def pushAll_simps
      emptyRequest_simps split: option.splits sum.splits)
  done

lemma fetch_Inr_cases:
  assumes "fetchRequestFromCwd E exP iu s = (Inr req, s')"
  obtains (none) "find (\<lambda>rf. fs_exists (world s) (manifestLoc E rf)) (registries E) = None"
      "req = emptyRequest" "s' = s"
  | (some) rf json0 json acc where
      "find (\<lambda>rf. fs_exists (world s) (manifestLoc E rf)) (registries E) = Some rf"
      "readJson E (world s) (manifestLoc E rf) = Inr json0"
      "normalizeManifest E json0 = Inr json"
      "acc = pushAll E (excludeNames_of E exP) iu (fst rf) json
          (emptyRequest\<lparr>manifest := Some json\<rparr>,
           (afterRead (fst rf) (manifestLoc E rf) s)
             \<lparr>resolutions := obj_assign (resolutions s) (manifest_resolutions json)\<rparr>)"
      "req = fst acc" "s' = inheritFlat json (snd acc)"
  using assms unfolding fetchRequestFromCwd_eq
  by (auto simp: Let_def split: option.splits sum.splits)

lemma fetch_patterns:
  assumes "fetchRequestFromCwd E exP iu s = (Inr req, s')"
  shows "patterns req = map (emitted E (this_lockfile s)) (processedEntries E exP iu (flags s) (manifest req))"
    and "map req_pattern (requests req) = patterns req"
  using assms
  by (cases rule: fetch_Inr_cases;
      simp add: pushAll_simps emptyRequest_def afterRead_def processedEntries_def
        pushedDeps_def pushedDev_def pushedOpt_def pushed_def json_get_def)+

lemma fetch_partition:
  assumes "fetchRequestFromCwd E exP iu s = (Inr req, s')"
  shows "mset (patterns req) = mset (usedPatterns req) + mset (ignorePatterns req)"
  using assms
  by (cases rule: fetch_Inr_cases)
     (simp_all add: pushAll_simps emptyRequest_def afterRead_def)

lemmas eval_fetch = fetchRequestFromCwd_def io_simps collectManifest_def pushDeps_def pushDep_def
      excludeNames_of_def exampleEnv_def exampleInstall_def exampleConfig_def exampleWorld_def
      exampleLockfile_def new_Install_def fs_exists_def json_get_def packageJson_def
      normalizeFlags_def Let_def log_effect_def obj_assign_def obj_set_name isDigit_def

lemma example_fetch_pair:
  "fetchRequestFromCwd exampleEnv [] False exampleInstall = (Inr exampleRequest, exampleInstallAfter)"
  by (simp add: eval_fetch exampleRequest_def exampleInstallAfter_def)

lemma pushDep_registries: "pushDep (E\<lparr>registries := regs\<rparr>) = pushDep E"
  by (intro ext) (simp add: pushDep_def Let_def)

lemma pushDeps_registries: "pushDeps (E\<lparr>registries := regs\<rparr>) = pushDeps E"
  by (intro ext) (simp add: pushDeps_def pushDep_registries)

lemma pushAll_registries: "pushAll (E\<lparr>registries := regs\<rparr>) = pushAll E"
  by (intro ext) (simp add: pushAll_def pushDeps_registries)

lemma excludeNames_of_registries: "excludeNames_of (E\<lparr>registries := regs\<rparr>) = excludeNames_of E"
  by (intro ext) (simp add: excludeNames_of_def cong: if_cong)

lemma manifestLoc_registries: "manifestLoc (E\<lparr>registries := regs\<rparr>) = manifestLoc E"
  by (intro ext) (simp add: manifestLoc_def)

lemma fetch_first:
  assumes "find (\<lambda>rf. fs_exists (world s) (manifestLoc E rf)) (registries E) = Some rf"
  shows "fetchRequestFromCwd E exP iu s =
          (case readJson E (world s) (manifestLoc E rf) of
             Inl e \<Rightarrow> (Inl e, afterRead (fst rf) (manifestLoc E rf) s)
           | Inr json0 \<Rightarrow>
               (case normalizeManifest E json0 of
                  Inl e \<Rightarrow> (Inl e, afterRead (fst rf) (manifestLoc E rf) s)
                | Inr json \<Rightarrow>
                    (let acc = pushAll E (excludeNames_of E exP) iu (fst rf) json
                          (emptyRequest\<lparr>manifest := Some json\<rparr>,
                           (afterRead (fst rf) (manifestLoc E rf) s)
                             \<lparr>resolutions := obj_assign (resolutions s) (manifest_resolutions json)\<rparr>)
                     in (Inr (fst acc), inheritFlat json (snd acc)))))"
  by (simp add: fetchRequestFromCwd_eq assms)

lemma inheritFlat_frame:
  "world (inheritFlat json s) = world s"
  "rootManifestRegistries (inheritFlat json s) = rootManifestRegistries s"
  "resolutions (inheritFlat json s) = resolutions s"
  by (simp_all add: inheritFlat_def)

lemma three_fetch_pair:
  "fetchRequestFromCwd threeRegistriesEnv [] False exampleInstall =
     (Inr exampleRequest, exampleInstallAfter)"
  by (simp add: eval_fetch threeRegistriesEnv_def exampleRequest_def exampleInstallAfter_def)

lemma perform_apply:
  "perform E ev w =
     ((case throws E w ev of Some e \<Rightarrow> Inl e | None \<Rightarrow> Inr ()), log_effect ev w)"
  by (simp add: perform_def ask_def)

lemma fs_unlink_Inr:
  assumes "fs_unlink E loc w = (Inr u, w')"
  shows "files w' = removeAll loc (files w)" and "trace w' = trace w @ [Unlink loc]"
  using assms
  by (auto simp: fs_unlink_def io_simps perform_apply log_effect_def split: option.splits)

lemma unlinkStale_Inr:
  assumes "unlinkStale E required tarballs w = (Inr u, w')"
  shows "files w' =
           filter (\<lambda>p. p \<notin> absolute ` {t \<in> set tarballs. basename t \<notin> set required}) (files w)
         \<and> trace w' =
           trace w @ map (\<lambda>t. Unlink (absolute t)) (filter (\<lambda>t. basename t \<notin> set required) tarballs)"
  using assms
proof (induction tarballs arbitrary: w)
  case Nil
  then show ?case by simp
next
  case (Cons t ts)
  show ?case
  proof (cases "basename t \<notin> set required")
    case True
    with Cons.prems obtain w1 where
      u: "fs_unlink E (absolute t) w = (Inr (), w1)" and
      r: "unlinkStale E required ts w1 = (Inr u, w')"
      by (auto split: prod.splits sum.splits)
    from fs_unlink_Inr [OF u] Cons.IH [OF r] True show ?thesis
      by (auto simp: removeAll_filter_not_eq filter_filter intro!: filter_cong)
  next
    case False
    with Cons.prems have r: "unlinkStale E required ts w = (Inr u, w')" by simp
    from Cons.IH [OF r] False show ?thesis
      by (auto intro!: filter_cong)
  qed
qed

lemma fs_walk_Inr:
  assumes "fs_walk E dir w = (Inr tarballs, w')"
  shows "w' = log_effect (Walk dir) w"
    and "tarballs = map (\<lambda>p. \<lparr>absolute = p, basename = path_basename E p\<rparr>)
                     (filter (path_inside E dir) (files w))"
  using assms
  by (auto simp: fs_walk_def io_simps perform_apply log_effect_def split: option.splits)

lemma mem_requiredTarballs_fold:
  "b \<in> set (fold (\<lambda>entry required.
             if truthy_string (resolved (snd entry))
             then List.insert
                    (path_basename E (takeWhile (\<lambda>c. c \<noteq> CHR ''#'') (the (resolved (snd entry)))))
                    required
             else required) l acc) \<longleftrightarrow>
   b \<in> set acc \<or>
   (\<exists>entry \<in> set l. \<exists>r. resolved (snd entry) = Some r \<and> r \<noteq> [] \<and>
      b = path_basename E (takeWhile (\<lambda>c. c \<noteq> CHR ''#'') r))"
proof (induction l arbitrary: acc)
  case Nil
  show ?case by simp
next
  case (Cons entry l)
  show ?case
    by (simp only: fold_simps Cons.IH, cases "resolved (snd entry)")
       (auto simp: truthy_string_def)
qed

lemma mem_requiredTarballs:
  "b \<in> set (requiredTarballs E l) \<longleftrightarrow>
     (\<exists>entry \<in> set l. \<exists>r. resolved (snd entry) = Some r \<and> r \<noteq> [] \<and>
        b = path_basename E (takeWhile (\<lambda>c. c \<noteq> CHR ''#'') r))"
  unfolding requiredTarballs_def mem_requiredTarballs_fold by simp

lemma mirror_required:
  "requiredTarballs mirrorEnv mirrorLockfileImage = [''y-2.tgz'', ''x-1.tgz'']"
  by (simp add: requiredTarballs_def mirrorEnv_def exampleEnv_def mirrorLockfileImage_def
      truthy_string_def)

lemma mirror_prune:
  "pruneOfflineMirror mirrorEnv mirrorLockfileImage mirrorWorld =
     (Inr (), \<lparr>files = [''/mirror/x-1.tgz'', ''/mirror/y-2.tgz'', ''/project/package.json''],
               trace = [Walk ''/mirror'', Unlink ''/mirror/z-old.tgz'']\<rparr>)"
  unfolding pruneOfflineMirror_def mirror_required
  by (simp add: mirrorEnv_def exampleEnv_def exampleConfig_def mirrorWorld_def truthy_string_def
      fs_walk_def fs_unlink_def io_simps perform_apply log_effect_def Let_def)

lemma lockFileHasAllPatterns_iff:
  "lockFileHasAllPatterns E lf pats \<longleftrightarrow> (\<forall>p \<in> set pats. getLocked E lf p False \<noteq> None)"
  by (auto simp: lockFileHasAllPatterns_def filter_empty_conv)

lemma resolverPatternsAreSameAsInLockfile_iff:
  "resolverPatternsAreSameAsInLockfile E lf candidate \<longleftrightarrow>
     (\<forall>entry \<in> set candidate. \<exists>man. getLocked E lf (fst entry) False = Some man \<and>
        resolved man = resolved (snd entry))"
  by (auto simp: resolverPatternsAreSameAsInLockfile_def filter_empty_conv split: option.splits)

lemma example_flags:
  "flags exampleInstall =
     \<lparr>har = False, ignorePlatform = False, ignoreEngines = False,
        ignoreScripts = False, ignoreOptional = False, force = False,
        flat = False, lockfile = True, pureLockfile = False,
        skipIntegrityCheck = False, frozenLockfile = False,
        linkDuplicates = False, checkFiles = False, peer = False,
        dev = False, optional = False, exact = False, tilde = False\<rparr>"
  by (simp add: exampleInstall_def new_Install_def normalizeFlags_def exampleEnv_def
      exampleConfig_def)

lemma example_candidate:
  "getLockfile exampleEnv (this_lockfile exampleInstall) (resolver_patterns exampleResolver) =
     Inr exampleCandidate"
  by (simp add: exampleEnv_def exampleResolver_def exampleCandidate_def)

lemma locked_candidate:
  "getLockfile exampleEnv (this_lockfile exampleInstall) (resolver_patterns lockedResolver) =
     Inr [(''left-pad'',
        \<lparr>resolved = Some ''https://registry.yarnpkg.com/left-pad/-/left-pad-1.1.3.tgz#abc'',
          lock_version = ''1.1.3''\<rparr>)]"
  by (simp add: exampleEnv_def lockedResolver_def)

lemma getLocked_example:
  "getLocked exampleEnv (this_lockfile exampleInstall) p b =
     (if p = ''left-pad''
      then Some \<lparr>resolved = Some ''https://registry.yarnpkg.com/left-pad/-/left-pad-1.1.3.tgz#abc'',
                  lock_version = ''1.1.3''\<rparr>
      else None)"
  by (simp add: exampleEnv_def exampleInstall_def new_Install_def exampleLockfile_def)

lemma emitsOnlyI:
  assumes "\<And>s. \<exists>evs. trace (world (snd (m s))) = trace (world s) @ evs \<and> list_all P evs"
    and "\<And>s. guardsKept s (snd (m s))"
  shows "emitsOnly P m"
  using assms by (simp add: emitsOnly_def)

lemma emitsOnlyD:
  assumes "emitsOnly P m"
  obtains evs where "trace (world (snd (m s))) = trace (world s) @ evs" "list_all P evs"
    "guardsKept s (snd (m s))"
  using assms unfolding emitsOnly_def by blast

lemma guardsKept_refl: "guardsKept s s"
  by (simp add: guardsKept_def)

lemma guardsKept_trans: "guardsKept s s1 \<Longrightarrow> guardsKept s1 s2 \<Longrightarrow> guardsKept s s2"
  by (simp add: guardsKept_def)

lemma guardsKept_world: "guardsKept s (s\<lparr>world := w\<rparr>)"
  by (simp add: guardsKept_def)

lemma emitsOnly_return: "emitsOnly P (io_return x)"
  by (rule emitsOnlyI) (simp_all add: io_simps guardsKept_refl)

lemma emitsOnly_throw: "emitsOnly P (io_throw e)"
  by (rule emitsOnlyI) (simp_all add: io_simps guardsKept_refl)

lemma emitsOnly_get: "emitsOnly P io_get"
  by (rule emitsOnlyI) (simp_all add: io_simps guardsKept_refl)

lemma emitsOnly_of_sum: "emitsOnly P (io_of_sum r)"
  by (rule emitsOnlyI) (simp_all add: io_simps guardsKept_refl)

lemma emitsOnly_modify:
  assumes "\<And>s. trace (world (f s)) = trace (world s) \<and> guardsKept s (f s)"
  shows "emitsOnly P (io_modify f)"
  by (rule emitsOnlyI) (simp_all add: io_simps assms)

lemma emitsOnly_emit: "P ev \<Longrightarrow> emitsOnly P (in_world (emit ev))"
  by (rule emitsOnlyI) (simp_all add: io_simps log_effect_def guardsKept_world)

lemma emitsOnly_ask: "P ev \<Longrightarrow> emitsOnly P (in_world (ask ev answer))"
  by (rule emitsOnlyI) (simp_all add: io_simps log_effect_def guardsKept_world)

lemma emitsOnly_perform: "P ev \<Longrightarrow> emitsOnly P (in_world (perform E ev))"
  by (simp add: perform_def emitsOnly_ask)

lemma emitsOnly_bind:
  assumes "emitsOnly P m" and "\<And>x. emitsOnly P (f x)"
  shows "emitsOnly P (io_bind m f)"
proof (rule emitsOnlyI)
  fix s
  obtain evs where m: "trace (world (snd (m s))) = trace (world s) @ evs" "list_all P evs"
    "guardsKept s (snd (m s))"
    using assms(1) by (rule emitsOnlyD)
  have "(\<exists>evs. trace (world (snd (io_bind m f s))) = trace (world s) @ evs \<and> list_all P evs) \<and>
        guardsKept s (snd (io_bind m f s))"
  proof (cases "m s")
    case (Pair r s1)
    show ?thesis
    proof (cases r)
      case (Inl e)
      with Pair m show ?thesis by (auto simp: io_bind_apply)
    next
      case (Inr x)
      obtain evs' where f: "trace (world (snd (f x s1))) = trace (world s1) @ evs'"
        "list_all P evs'" "guardsKept s1 (snd (f x s1))"
        using assms(2) [of x] by (rule emitsOnlyD)
      from Pair Inr m f show ?thesis
        by (auto simp: io_bind_apply intro: guardsKept_trans intro!: exI [of _ "evs @ evs'"])
    qed
  qed
  then show "\<exists>evs. trace (world (snd (io_bind m f s))) = trace (world s) @ evs \<and> list_all P evs"
    and "guardsKept s (snd (io_bind m f s))" by blast+
qed

lemma emitsOnly_if:
  assumes "c \<Longrightarrow> emitsOnly P m" and "\<not> c \<Longrightarrow> emitsOnly P n"
  shows "emitsOnly P (if c then m else n)"
  using assms by simp

lemma emitsOnly_fetchRequestFromCwd:
  assumes "\<And>loc. P (ReadJson loc)"
  shows "emitsOnly P (fetchRequestFromCwd E exP iu)"
proof (rule emitsOnlyI)
  fix s
  show "\<exists>evs. trace (world (snd (fetchRequestFromCwd E exP iu s))) = trace (world s) @ evs \<and>
          list_all P evs"
    unfolding fetchRequestFromCwd_eq
    by (auto simp: afterRead_def log_effect_def Let_def pushAll_simps inheritFlat_frame assms
        split: option.splits sum.splits)
  show "guardsKept s (snd (fetchRequestFromCwd E exP iu s))"
    unfolding fetchRequestFromCwd_eq
    by (auto simp: guardsKept_def afterRead_def Let_def pushAll_simps inheritFlat_def
        split: option.splits sum.splits)
qed

lemma emitsOnly_resolverInit:
  assumes "\<And>reqs fl. P (ResolverInit reqs fl)"
  shows "emitsOnly P (resolverInit E reqs)"
  unfolding resolverInit_def
  by (intro emitsOnly_bind emitsOnly_get emitsOnly_ask emitsOnly_modify assms)
     (simp add: guardsKept_def)

lemma emitsOnly_chooseVersion:
  assumes "\<And>m a options. P (ReporterSelect m a options)"
  shows "emitsOnly P (chooseVersion E name options versions)"
  unfolding chooseVersion_def
  by (intro emitsOnly_bind emitsOnly_get emitsOnly_if emitsOnly_return emitsOnly_ask
      emitsOnly_modify assms) (simp add: guardsKept_def)

lemma emitsOnly_collapse:
  assumes "\<And>name v. P (ResolverCollapse name v)"
  shows "emitsOnly P (collapse E name v)"
  unfolding collapse_def
  by (intro emitsOnly_bind emitsOnly_get emitsOnly_return emitsOnly_ask emitsOnly_modify assms)
     (simp add: guardsKept_def)

lemma flattenNames_Cons:
  "flattenNames E (name # rest) flattenedPatterns =
     io_bind io_get (\<lambda>s.
     io_bind (io_of_sum (filterNotIgnored (resolver s) (getAllInfoForPackageName E (resolver s) name)))
       (\<lambda>infos.
        if length infos = 0 then flattenNames E rest flattenedPatterns
        else if length infos = 1 then
          (case obj_get (patternsByPackage (resolver s)) name of
             None \<Rightarrow> io_throw (TypeError ''patternsByPackage[name] is undefined'')
           | Some ps \<Rightarrow>
               flattenNames E rest
                 (flattenedPatterns @ [case ps of [] \<Rightarrow> None | p # _ \<Rightarrow> Some p]))
        else
          io_bind (io_of_sum (selectOptions (resolver s) infos)) (\<lambda>options.
          io_bind (chooseVersion E name options (map version infos)) (\<lambda>v.
          io_bind (collapse E name v) (\<lambda>p.
          flattenNames E rest (flattenedPatterns @ [Some p]))))))"
  by (rule ext)
     (simp add: io_bind_apply io_get_apply io_of_sum_apply io_throw_apply
        split: sum.splits option.splits prod.splits)

lemma emitsOnly_flattenNames:
  assumes "\<And>m a options. P (ReporterSelect m a options)" and "\<And>name v. P (ResolverCollapse name v)"
  shows "emitsOnly P (flattenNames E names flattenedPatterns)"
proof (induction names arbitrary: flattenedPatterns)
  case Nil
  show ?case by (rule emitsOnlyI) (simp_all add: guardsKept_refl)
next
  case (Cons name rest)
  show ?case
    unfolding flattenNames_Cons
    by (intro emitsOnly_bind emitsOnly_get emitsOnly_of_sum emitsOnly_if Cons.IH
        emitsOnly_chooseVersion emitsOnly_collapse assms)
       (auto split: option.splits intro: emitsOnly_throw Cons.IH)
qed

lemma emitsOnly_flatten:
  assumes "\<And>m a options. P (ReporterSelect m a options)" and "\<And>name v. P (ResolverCollapse name v)"
    and "P GetRootManifests" and "\<And>ms. P (SaveRootManifests ms)"
  shows "emitsOnly P (flatten E pats)"
  unfolding flatten_def
  by (intro emitsOnly_bind emitsOnly_get emitsOnly_if emitsOnly_return emitsOnly_flattenNames
      emitsOnly_ask emitsOnly_of_sum emitsOnly_perform assms)

lemma io_bind_assoc: "io_bind (io_bind m f) g = io_bind m (\<lambda>x. io_bind (f x) g)"
  by (rule ext) (simp add: io_bind_apply split: prod.splits sum.splits)

lemma io_bind_return_left: "io_bind (io_return x) f = f x"
  by (rule ext) (simp add: io_bind_apply io_return_apply)

lemma runSteps_Cons:
  "runSteps E req (st # rest) currentStep tot locals =
     io_bind (runStep E req st (currentStep + 1) tot locals) (\<lambda>res.
       if fst res then io_return (True, snd res)
       else runSteps E req rest (currentStep + 1) tot (snd res))"
  by (rule ext) (simp add: io_bind_apply io_return_apply split: prod.splits sum.splits)

lemma runStep_Resolve:
  "runStep E req StepResolve cur tot locals =
          io_bind (in_world (emit (ReporterStep cur tot (Lang ''resolvingPackages'' []))))
            (\<lambda>_.
          io_bind (resolverInit E (prepareRequests (requests req))) (\<lambda>_.
          io_bind (flatten E (preparePatterns (patterns req))) (\<lambda>flattened.
          io_bind (bailout E (usedPatterns req)) (\<lambda>b.
          io_return (b, \<lparr>topLevelPatterns = preparePatterns (patterns req),
                          flattenedTopLevelPatterns = flattened\<rparr>)))))"
  by (simp add: runStep_def)

lemma pipelineSteps_Cons:
  "pipelineSteps E s = StepResolve # tl (pipelineSteps E s)"
  by (simp add: pipelineSteps_def)

lemma init_eq:
  "init E =
     io_bind (beforeBailout E) (\<lambda>x.
     io_bind (bailout E (usedPatterns (fst x))) (\<lambda>b.
     afterBailout E (fst x) (fst (snd x)) (snd (snd x)) b))"
proof -
  have steps: "\<And>s req locals.
      runSteps E req (pipelineSteps E s) 0 (length (pipelineSteps E s)) locals =
      io_bind (runStep E req StepResolve 1 (length (pipelineSteps E s)) locals) (\<lambda>res.
       if fst res then io_return (True, snd res)
       else runSteps E req (tl (pipelineSteps E s)) 1 (length (pipelineSteps E s)) (snd res))"
    by (subst pipelineSteps_Cons, subst runSteps_Cons) (simp cong: if_cong)
  have "init E =
     io_bind (in_world (emit CheckUpdate)) (\<lambda>_.
     io_bind io_get (\<lambda>s0.
     io_bind (if fs_exists (world s0) (path_join E (cwd (config E)) ''npm-shrinkwrap.json'')
              then in_world (emit (ReporterWarn (Lang ''shrinkwrapWarning'' [])))
              else io_return ()) (\<lambda>_.
     io_bind (fetchRequestFromCwd E [] False) (\<lambda>req.
     io_bind io_get (\<lambda>s1.
     io_bind (runSteps E req (pipelineSteps E s1) 0 (length (pipelineSteps E s1))
                \<lparr>topLevelPatterns = [], flattenedTopLevelPatterns = []\<rparr>) (\<lambda>res.
       if fst res then io_return (flattenedTopLevelPatterns (snd res))
       else
         io_bind (saveLockfileAndIntegrity E (topLevelPatterns (snd res))) (\<lambda>_.
         io_bind (in_world (emit MaybeOutputUpdate)) (\<lambda>_.
         io_bind (in_world (perform E ClearCache)) (\<lambda>_.
         io_return (flattenedTopLevelPatterns (snd res)))))))))))"
    by (simp add: init_def pipelineSteps_def Let_def)
  also have "\<dots> = io_bind (beforeBailout E) (\<lambda>x.
     io_bind (bailout E (usedPatterns (fst x))) (\<lambda>b.
     afterBailout E (fst x) (fst (snd x)) (snd (snd x)) b))"
    unfolding steps runStep_Resolve beforeBailout_def afterBailout_def
    by (simp only: io_bind_assoc io_bind_return_left fst_conv snd_conv)
  finally show ?thesis .
qed

lemma init_stops_at_bailout:
  assumes "beforeBailout E s = (Inr (req, steps, flattened), s1)"
    and "bailout E (usedPatterns req) s1 = (Inl e, s2)"
  shows "init E s = (Inl e, s2)"
  unfolding init_eq
  by (simp add: io_bind_apply assms)

lemma emitsOnly_beforeBailout:
  "emitsOnly (\<lambda>ev. \<not> isFetchLinkScript ev) (beforeBailout E)"
  unfolding beforeBailout_def
  by (intro emitsOnly_bind emitsOnly_get emitsOnly_if emitsOnly_return emitsOnly_emit
      emitsOnly_fetchRequestFromCwd emitsOnly_resolverInit emitsOnly_flatten)
     (simp_all add: isFetchLinkScript_def)

lemma bailout_frozen:
  assumes "frozenLockfile (flags s)" "\<not> skipIntegrityCheck (flags s)" "\<not> force (flags s)"
    and "cache (this_lockfile s) = Some lockfileCache"
    and "integrity_check E (world s) pats lockfileCache (flags s) = Inr m"
    and "missingPatterns m \<noteq> []"
  shows "bailout E pats s =
           (Inl (MessageError (Lang ''frozenLockfileError'' [])),
            s\<lparr>world := log_effect (IntegrityCheck pats) (world s)\<rparr>)"
  using assms by (simp add: bailout_def io_simps)

lemmas eval_install = eval_fetch init_def runStep_def resolverInit_def flatten_def bailout_def
  saveLockfileAndIntegrity_def lockFileHasAllPatterns_def resolverPatternsAreSameAsInLockfile_def
  createEmptyManifestFolders_def perform_apply fs_writeFilePreservingEol_def shouldClean_def
  prepareRequests_def preparePatterns_def exampleResolve_def truthy_string_def

lemma frozen_before:
  "beforeBailout exampleEnv frozenInstall =
     (Inr (exampleRequest, [StepResolve, StepFetch, StepLink, StepScripts],
           [Some ''left-pad'', Some ''chalk@^1.0.0'', Some ''mocha@^3.0.0'',
            Some ''fsevents@^1.0.0'']),
      frozenAtBailout)"
  by (simp add: beforeBailout_def pipelineSteps_def eval_install frozenInstall_def frozenFlags_def
      frozenAtBailout_def exampleRequest_def)

lemma fetch_used_ignored:
  assumes "fetchRequestFromCwd E exP iu s = (Inr req, s')"
  shows "usedPatterns req =
           map (emitted E (this_lockfile s)) (usedEntries E exP (flags s) (cwdManifest E s))"
    and "ignorePatterns req =
           map (emitted E (this_lockfile s)) (unusedEntries E exP iu (flags s) (cwdManifest E s))"
  using assms
  by (cases rule: fetch_Inr_cases;
      simp add: pushAll_simps emptyRequest_def afterRead_def usedEntries_def unusedEntries_def
        cwdManifest_def pushedDeps_def pushedDev_def pushedOpt_def pushed_def json_get_def)+

lemma production_fetch:
  "fst (fetchRequestFromCwd (productionEnv packageJson) [] False exampleInstall) =
     Inr productionRequest"
  by (simp add: eval_fetch productionEnv_def productionRequest_def)

lemma pruneOfflineMirror_Inr:
  assumes "pruneOfflineMirror E l w = (Inr u, w')"
  shows "\<exists>evs. trace w' = trace w @ evs \<and> list_all isMirrorEffect evs"
proof (cases "truthy_string (getOfflineMirrorPath (config E))")
  case False
  with assms have "w' = w" by (simp add: pruneOfflineMirror_def io_simps)
  then show ?thesis by simp
next
  case True
  let ?mirror = "the (getOfflineMirrorPath (config E))"
  from True assms obtain ts w1 where
    wk: "fs_walk E ?mirror w = (Inr ts, w1)" and
    ul: "unlinkStale E (requiredTarballs E l) ts w1 = (Inr u, w')"
    by (auto simp: pruneOfflineMirror_def io_bind_apply Let_def split: prod.splits sum.splits)
  from fs_walk_Inr(1) [OF wk] unlinkStale_Inr [OF ul]
  have "trace w' = trace w @ Walk ?mirror #
      map (\<lambda>t. Unlink (absolute t)) (filter (\<lambda>t. basename t \<notin> set (requiredTarballs E l)) ts)"
    by (simp add: log_effect_def)
  moreover have "list_all isMirrorEffect (Walk ?mirror #
      map (\<lambda>t. Unlink (absolute t)) (filter (\<lambda>t. basename t \<notin> set (requiredTarballs E l)) ts))"
    by (simp add: list_all_iff isMirrorEffect_def)
  ultimately show ?thesis by blast
qed

lemma saveLockfileAndIntegrity_Inr:
  assumes en: "lockfile (flags s)" "\<not> pureLockfile (flags s)"
    and ok: "fst (saveLockfileAndIntegrity E pats s) = Inr ()"
  shows "\<exists>candidate evs.
     getLockfile E (this_lockfile s) (resolver_patterns (resolver s)) = Inr candidate \<and>
     list_all isMirrorEffect evs \<and>
     newEffects s (snd (saveLockfileAndIntegrity E pats s)) =
       evs @ [IntegritySave pats candidate (flags s) (usedRegistries (resolver s))]
         @ (if lockFileHasAllPatterns E (this_lockfile s) pats \<and>
               resolverPatternsAreSameAsInLockfile E (this_lockfile s) candidate \<and>
               length pats \<noteq> 0 \<and> \<not> force (flags s)
            then []
            else [WriteFilePreservingEol (path_join E (cwd (config E)) (LOCKFILE_FILENAME E))
                    candidate,
                  ReporterSuccess (Lang ''savedLockfile'' [])])"
proof -
  let ?loc = "path_join E (cwd (config E)) (LOCKFILE_FILENAME E)"
  obtain candidate where
    c: "getLockfile E (this_lockfile s) (resolver_patterns (resolver s)) = Inr candidate"
    using en ok
    by (cases "getLockfile E (this_lockfile s) (resolver_patterns (resolver s))")
       (auto simp: saveLockfileAndIntegrity_def io_simps)
  let ?cond = "lockFileHasAllPatterns E (this_lockfile s) pats \<and>
              resolverPatternsAreSameAsInLockfile E (this_lockfile s) candidate \<and>
              length pats \<noteq> 0 \<and> \<not> force (flags s)"
  let ?save = "IntegritySave pats candidate (flags s) (usedRegistries (resolver s))"
  let ?prune = "if config_pruneOfflineMirror (config E)
           then pruneOfflineMirror E candidate else io_return ()"
  obtain r1 w1 where p: "?prune (world s) = (r1, w1)" by (cases "?prune (world s)")
  have p': "(if config_pruneOfflineMirror (config E)
           then in_world (pruneOfflineMirror E candidate) else io_return ()) s =
         (r1, s\<lparr>world := w1\<rparr>)"
    using p by (auto simp: io_simps split: if_splits)
  have r1: "r1 = Inr ()"
    using en ok c p'
    by (cases r1) (simp_all add: saveLockfileAndIntegrity_def io_bind_apply io_get_apply
        io_of_sum_apply)
  obtain evs where tr: "trace w1 = trace (world s) @ evs" and me: "list_all isMirrorEffect evs"
  proof (cases "config_pruneOfflineMirror (config E)")
    case True
    with p r1 have "pruneOfflineMirror E candidate (world s) = (Inr (), w1)" by simp
    from pruneOfflineMirror_Inr [OF this] that show ?thesis by blast
  next
    case False
    with p have "w1 = world s" by (simp add: io_simps)
    with that [of "[]"] show ?thesis by simp
  qed
  have rest: "saveLockfileAndIntegrity E pats s =
      io_bind (in_world (perform E ?save)) (\<lambda>_.
           if ?cond then io_return ()
           else
             io_bind (in_world (fs_writeFilePreservingEol E ?loc candidate)) (\<lambda>_.
             in_world (emit (ReporterSuccess (Lang ''savedLockfile'' []))))) (s\<lparr>world := w1\<rparr>)"
    using en c p' r1
    by (auto simp: saveLockfileAndIntegrity_def io_bind_apply io_get_apply io_of_sum_apply Let_def
        split: prod.splits sum.splits)
  have t1: "throws E w1 ?save = None"
    using ok unfolding rest
    by (cases "throws E w1 ?save") (simp_all add: io_bind_apply in_world_apply perform_apply)
  show ?thesis
  proof (cases ?cond)
    case True
    then have "trace (world (snd (saveLockfileAndIntegrity E pats s))) =
                 trace (world s) @ evs @ [?save]"
      unfolding rest using t1 tr
      by (simp add: io_bind_apply in_world_apply perform_apply io_return_apply log_effect_def)
    with True c me show ?thesis by (simp add: newEffects_def)
  next
    case False
    have restF: "saveLockfileAndIntegrity E pats s =
      io_bind (in_world (perform E ?save)) (\<lambda>_.
             io_bind (in_world (fs_writeFilePreservingEol E ?loc candidate)) (\<lambda>_.
             in_world (emit (ReporterSuccess (Lang ''savedLockfile'' []))))) (s\<lparr>world := w1\<rparr>)"
      unfolding rest by (simp only: if_not_P [OF False])
    have t2: "throws E (log_effect ?save w1) (WriteFilePreservingEol ?loc candidate) = None"
      using ok t1 unfolding restF
      by (cases "throws E (log_effect ?save w1) (WriteFilePreservingEol ?loc candidate)")
         (simp_all add: io_bind_apply in_world_apply perform_apply fs_writeFilePreservingEol_def)
    have "trace (world (snd (saveLockfileAndIntegrity E pats s))) =
                 trace (world s) @ evs @ [?save, WriteFilePreservingEol ?loc candidate,
                    ReporterSuccess (Lang ''savedLockfile'' [])]"
      unfolding restF using t1 t2 tr
      by (simp add: io_bind_apply in_world_apply perform_apply io_return_apply log_effect_def
          fs_writeFilePreservingEol_def io_modify_apply emit_apply)
    with False c me show ?thesis by (simp add: newEffects_def)
  qed
qed

lemma fetcherFails_save:
  "fst (saveLockfileAndIntegrity fetcherFailsEnv pats (exampleInstall\<lparr>resolver := r\<rparr>)) = Inr ()"
  by (simp add: saveLockfileAndIntegrity_def io_simps in_world_apply perform_apply
      fs_writeFilePreservingEol_def emit_apply example_flags fetcherFailsEnv_def exampleEnv_def
      exampleConfig_def Let_def)

lemma fetcherFails_simps:
  "getLocked fetcherFailsEnv = getLocked exampleEnv"
  "getLockfile fetcherFailsEnv = getLockfile exampleEnv"
  "path_join fetcherFailsEnv (cwd (config fetcherFailsEnv)) (LOCKFILE_FILENAME fetcherFailsEnv) =
     ''/project/yarn.lock''"
  by (simp_all add: fetcherFailsEnv_def exampleEnv_def exampleConfig_def)

section \<open>Frozen lockfile\<close>

text \<open>
  C1 (as amended). With \<open>frozenLockfile\<close> set, neither \<open>skipIntegrityCheck\<close> nor
  \<open>force\<close> set and a lockfile loaded, once request collection, resolution and
  flattening have succeeded and the integrity check reports a non-empty
  \<open>missingPatterns\<close>, \<open>bailout(usedPatterns)\<close> throws the frozen-lockfile
  \<open>MessageError\<close>, \<open>init\<close> fails with it, and no fetch, link or script step has run.
\<close>

theorem frozen_lockfile_soundness:
  assumes "frozenLockfile (flags s)" and "\<not> skipIntegrityCheck (flags s)" and "\<not> force (flags s)"
    and "cache (this_lockfile s) = Some lockfileCache"
    and "beforeBailout E s = (Inr (req, steps, flattened), s1)"
    and "integrity_check E (world s1) (usedPatterns req) lockfileCache (flags s1) = Inr m"
    and "missingPatterns m \<noteq> []"
  shows "bailout E (usedPatterns req) s1 =
           (Inl (MessageError (Lang ''frozenLockfileError'' [])),
            s1\<lparr>world := log_effect (IntegrityCheck (usedPatterns req)) (world s1)\<rparr>) \<and>
         init E s =
           (Inl (MessageError (Lang ''frozenLockfileError'' [])),
            s1\<lparr>world := log_effect (IntegrityCheck (usedPatterns req)) (world s1)\<rparr>) \<and>
         list_all (\<lambda>ev. \<not> isFetchLinkScript ev) (newEffects s (snd (init E s)))"
proof -
  obtain evs where t: "trace (world (snd (beforeBailout E s))) = trace (world s) @ evs"
    and p: "list_all (\<lambda>ev. \<not> isFetchLinkScript ev) evs"
    and g: "guardsKept s (snd (beforeBailout E s))"
    using emitsOnly_beforeBailout by (rule emitsOnlyD)
  from g assms(1-5) have f1: "frozenLockfile (flags s1)" "\<not> skipIntegrityCheck (flags s1)"
    "\<not> force (flags s1)" "cache (this_lockfile s1) = Some lockfileCache"
    by (simp_all add: guardsKept_def)
  note b = bailout_frozen [OF f1 assms(6,7)]
  note i = init_stops_at_bailout [OF assms(5) b]
  have "newEffects s (snd (init E s)) = evs @ [IntegrityCheck (usedPatterns req)]"
    using t assms(5) by (simp add: i newEffects_def log_effect_def)
  then have "list_all (\<lambda>ev. \<not> isFetchLinkScript ev) (newEffects s (snd (init E s)))"
    using p by (simp add: isFetchLinkScript_def)
  with b i show ?thesis by blast
qed

theorem frozen_lockfile_soundness_witness:
  "frozenLockfile (flags frozenInstall) \<and> \<not> skipIntegrityCheck (flags frozenInstall) \<and>
   \<not> force (flags frozenInstall) \<and>
   cache (this_lockfile frozenInstall) = cache exampleLockfile \<and>
   beforeBailout exampleEnv frozenInstall =
     (Inr (exampleRequest, [StepResolve, StepFetch, StepLink, StepScripts],
           [Some ''left-pad'', Some ''chalk@^1.0.0'', Some ''mocha@^3.0.0'',
            Some ''fsevents@^1.0.0'']),
      frozenAtBailout) \<and>
   integrity_check exampleEnv (world frozenAtBailout) (usedPatterns exampleRequest)
       (the (cache exampleLockfile)) (flags frozenAtBailout) =
     Inr \<lparr>integrityMatches = False, integrityFileMissing = True,
          missingPatterns = [''chalk@^1.0.0'', ''mocha@^3.0.0'', ''fsevents@^1.0.0'']\<rparr> \<and>
   init exampleEnv frozenInstall =
     (Inl (MessageError (Lang ''frozenLockfileError'' [])),
      frozenAtBailout\<lparr>world :=
        log_effect (IntegrityCheck (usedPatterns exampleRequest)) (world frozenAtBailout)\<rparr>) \<and>
   newEffects frozenInstall (snd (init exampleEnv frozenInstall)) =
     [CheckUpdate, ReadJson ''/project/package.json'',
      ReporterStep 1 4 (Lang ''resolvingPackages'' []),
      ResolverInit (requests exampleRequest) False,
      IntegrityCheck (usedPatterns exampleRequest)]"
proof -
  have f: "frozenLockfile (flags frozenInstall)" "\<not> skipIntegrityCheck (flags frozenInstall)"
    "\<not> force (flags frozenInstall)"
    by (simp_all add: frozenInstall_def frozenFlags_def new_Install_def normalizeFlags_def
        exampleEnv_def exampleConfig_def)
  have c: "cache (this_lockfile frozenInstall) =
      Some [(''left-pad'',
        \<lparr>resolved = Some ''https://registry.yarnpkg.com/left-pad/-/left-pad-1.1.3.tgz#abc'',
          lock_version = ''1.1.3''\<rparr>)]"
    by (simp add: frozenInstall_def new_Install_def exampleLockfile_def)
  have k: "integrity_check exampleEnv (world frozenAtBailout) (usedPatterns exampleRequest)
       [(''left-pad'',
        \<lparr>resolved = Some ''https://registry.yarnpkg.com/left-pad/-/left-pad-1.1.3.tgz#abc'',
          lock_version = ''1.1.3''\<rparr>)] (flags frozenAtBailout) =
     Inr \<lparr>integrityMatches = False, integrityFileMissing = True,
          missingPatterns = [''chalk@^1.0.0'', ''mocha@^3.0.0'', ''fsevents@^1.0.0'']\<rparr>"
    by (simp add: exampleEnv_def exampleRequest_def)
  have m: "missingPatterns \<lparr>integrityMatches = False, integrityFileMissing = True,
          missingPatterns = [''chalk@^1.0.0'', ''mocha@^3.0.0'', ''fsevents@^1.0.0'']\<rparr> \<noteq> []"
    by simp
  note t = frozen_lockfile_soundness [OF f c frozen_before k m]
  from t have i: "init exampleEnv frozenInstall =
     (Inl (MessageError (Lang ''frozenLockfileError'' [])),
      frozenAtBailout\<lparr>world :=
        log_effect (IntegrityCheck (usedPatterns exampleRequest)) (world frozenAtBailout)\<rparr>)"
    by blast
  have n: "newEffects frozenInstall (snd (init exampleEnv frozenInstall)) =
     [CheckUpdate, ReadJson ''/project/package.json'',
      ReporterStep 1 4 (Lang ''resolvingPackages'' []),
      ResolverInit (requests exampleRequest) False,
      IntegrityCheck (usedPatterns exampleRequest)]"
    unfolding i
    by (simp add: newEffects_def frozenAtBailout_def frozenInstall_def new_Install_def
        exampleWorld_def log_effect_def)
  from f c frozen_before k i n show ?thesis
    by (simp add: exampleLockfile_def)
qed

text \<open>
  Stated for every invocation with \<open>frozenLockfile\<close>, the property fails: with
  \<open>force\<close> set, or with no lockfile loaded at all, \<open>bailout\<close> returns before the
  integrity check, and the install fetches, links and runs scripts although a used
  pattern is missing from the lockfile.
\<close>

theorem frozen_lockfile_soundness_counterexample:
  "frozenLockfile (flags frozenForceInstall) \<and>
   getLocked exampleEnv (this_lockfile frozenForceInstall) ''chalk@^1.0.0'' False = None \<and>
   fst (init exampleEnv frozenForceInstall) =
     Inr [Some ''left-pad'', Some ''chalk@^1.0.0'', Some ''mocha@^3.0.0'',
          Some ''fsevents@^1.0.0''] \<and>
   filter isFetchLinkScript (trace (world (snd (init exampleEnv frozenForceInstall)))) =
     [FetcherInit, CompatibilityInit, RemoveIntegrityFile,
      LinkerInit [Some ''left-pad'', Some ''chalk@^1.0.0'', Some ''mocha@^3.0.0'',
                  Some ''fsevents@^1.0.0''] False,
      ScriptsInit [Some ''left-pad'', Some ''chalk@^1.0.0'', Some ''mocha@^3.0.0'',
                   Some ''fsevents@^1.0.0'']] \<and>
   frozenLockfile (flags frozenNoLockfileInstall) \<and>
   cache (this_lockfile frozenNoLockfileInstall) = None \<and>
   fst (init exampleEnv frozenNoLockfileInstall) =
     Inr [Some ''left-pad@^1.1.0'', Some ''chalk@^1.0.0'', Some ''mocha@^3.0.0'',
          Some ''fsevents@^1.0.0''] \<and>
   filter isFetchLinkScript (trace (world (snd (init exampleEnv frozenNoLockfileInstall)))) =
     [FetcherInit, CompatibilityInit, RemoveIntegrityFile,
      LinkerInit [Some ''left-pad@^1.1.0'', Some ''chalk@^1.0.0'', Some ''mocha@^3.0.0'',
                  Some ''fsevents@^1.0.0''] False,
      ScriptsInit [Some ''left-pad@^1.1.0'', Some ''chalk@^1.0.0'', Some ''mocha@^3.0.0'',
                   Some ''fsevents@^1.0.0'']]"
  by (simp add: eval_install frozenForceInstall_def frozenForceFlags_def
      frozenNoLockfileInstall_def frozenFlags_def isFetchLinkScript_def)

section \<open>Hydrate\<close>

text \<open>
  C2. \<open>hydrate\<close> is specified, and documented in the source, to perform no write
  to the working directory: no lockfile write, no integrity write and no
  root-manifest write. The code breaks this: for a root manifest with \<open>flat: true\<close>
  and a resolution, \<open>hydrate\<close> runs \<open>flatten\<close>, which saves the root manifests.
\<close>

theorem hydrate_saves_root_manifests:
  "fst (hydrate flatEnv False False exampleInstall) =
     Inr \<lparr>requests =
            [\<lparr>req_pattern = ''left-pad'', req_registry = ''npm'', req_hint = None,
               req_optional = False\<rparr>,
             \<lparr>req_pattern = ''chalk@^1.0.0'', req_registry = ''npm'', req_hint = None,
               req_optional = False\<rparr>],
          patterns = [''left-pad'', ''chalk@^1.0.0''],
          ignorePatterns = [],
          usedPatterns = [''left-pad'', ''chalk@^1.0.0''],
          manifest = Some flatJson\<rparr> \<and>
   newEffects exampleInstall (snd (hydrate flatEnv False False exampleInstall)) =
     [ReadJson ''/project/package.json'',
      ResolverInit
        [\<lparr>req_pattern = ''left-pad'', req_registry = ''npm'', req_hint = None,
           req_optional = False\<rparr>,
         \<lparr>req_pattern = ''chalk@^1.0.0'', req_registry = ''npm'', req_hint = None,
           req_optional = False\<rparr>] True,
      GetRootManifests,
      SaveRootManifests [(''npm'', flatJson)]]"
  by (simp add: hydrate_def eval_install flatEnv_def flatJson_def newEffects_def deref_def
      obj_get_def)

section \<open>Used and ignored patterns\<close>

text \<open>
  C3 (as amended). Whenever \<open>fetchRequestFromCwd\<close> returns, \<open>usedPatterns\<close> and
  \<open>ignorePatterns\<close> together contain exactly the elements of \<open>patterns\<close>, each as
  often as \<open>patterns\<close> does. \<open>usedPatterns\<close> holds the patterns of the entries of the
  root manifest pushed as used, \<open>ignorePatterns\<close> those of the entries pushed as
  unused, and the two have no element in common exactly when no entry pushed as used
  yields the pattern of an entry pushed as unused. This is a condition on the
  manifest, the lockfile, the flags and the configuration alone; it holds in
  particular outside production mode without \<open>ignoreOptional\<close>, and under
  \<open>ignoreUnusedPatterns\<close>, where nothing is pushed as unused.
\<close>

theorem fetchRequestFromCwd_partition:
  assumes "fetchRequestFromCwd E excludePatterns ignoreUnusedPatterns s = (Inr req, s')"
  shows "set (usedPatterns req) \<union> set (ignorePatterns req) = set (patterns req) \<and>
         mset (usedPatterns req) + mset (ignorePatterns req) = mset (patterns req) \<and>
         usedPatterns req =
           map (emitted E (this_lockfile s))
             (usedEntries E excludePatterns (flags s) (cwdManifest E s)) \<and>
         ignorePatterns req =
           map (emitted E (this_lockfile s))
             (unusedEntries E excludePatterns ignoreUnusedPatterns (flags s) (cwdManifest E s)) \<and>
         (set (usedPatterns req) \<inter> set (ignorePatterns req) = {} \<longleftrightarrow>
            (\<forall>u \<in> set (usedEntries E excludePatterns (flags s) (cwdManifest E s)).
             \<forall>i \<in> set (unusedEntries E excludePatterns ignoreUnusedPatterns (flags s)
                         (cwdManifest E s)).
               emitted E (this_lockfile s) u \<noteq> emitted E (this_lockfile s) i))"
proof -
  have m: "mset (patterns req) = mset (usedPatterns req @ ignorePatterns req)"
    using fetch_partition [OF assms] by simp
  have u: "set (patterns req) = set (usedPatterns req @ ignorePatterns req)"
    using m by (rule mset_eq_setD)
  note e = fetch_used_ignored [OF assms]
  have d: "set (usedPatterns req) \<inter> set (ignorePatterns req) = {} \<longleftrightarrow>
            (\<forall>u \<in> set (usedEntries E excludePatterns (flags s) (cwdManifest E s)).
             \<forall>i \<in> set (unusedEntries E excludePatterns ignoreUnusedPatterns (flags s)
                         (cwdManifest E s)).
               emitted E (this_lockfile s) u \<noteq> emitted E (this_lockfile s) i)"
    unfolding e by auto
  from m u e d show ?thesis by simp
qed

theorem fetchRequestFromCwd_partition_witness:
  "fst (fetchRequestFromCwd (productionEnv packageJson) [] False exampleInstall) =
     Inr productionRequest \<and>
   usedEntries (productionEnv packageJson) [] (flags exampleInstall)
       (cwdManifest (productionEnv packageJson) exampleInstall) =
     [(''left-pad'', ''^1.1.0''), (''chalk'', ''^1.0.0''), (''fsevents'', ''^1.0.0'')] \<and>
   unusedEntries (productionEnv packageJson) [] False (flags exampleInstall)
       (cwdManifest (productionEnv packageJson) exampleInstall) =
     [(''mocha'', ''^3.0.0'')] \<and>
   usedPatterns productionRequest = [''left-pad'', ''chalk@^1.0.0'', ''fsevents@^1.0.0''] \<and>
   ignorePatterns productionRequest = [''mocha@^3.0.0''] \<and>
   set (usedPatterns productionRequest) \<union> set (ignorePatterns productionRequest) =
     set (patterns productionRequest) \<and>
   set (usedPatterns productionRequest) \<inter> set (ignorePatterns productionRequest) = {}"
proof -
  let ?E = "productionEnv packageJson"
  have p: "fetchRequestFromCwd ?E [] False exampleInstall =
             (Inr productionRequest, snd (fetchRequestFromCwd ?E [] False exampleInstall))"
    using production_fetch by (simp add: prod_eq_iff)
  have c: "cwdManifest ?E exampleInstall = Some packageJson"
    by (simp add: cwdManifest_def productionEnv_def exampleEnv_def exampleInstall_def
        new_Install_def exampleWorld_def fs_exists_def manifestLoc_def exampleConfig_def)
  have ue: "usedEntries ?E [] (flags exampleInstall) (cwdManifest ?E exampleInstall) =
     [(''left-pad'', ''^1.1.0''), (''chalk'', ''^1.0.0''), (''fsevents'', ''^1.0.0'')]"
    unfolding c
    by (simp add: usedEntries_def kept_def excludeNames_of_def packageJson_def example_flags
        productionEnv_def exampleEnv_def exampleConfig_def)
  have ie: "unusedEntries ?E [] False (flags exampleInstall) (cwdManifest ?E exampleInstall) =
     [(''mocha'', ''^3.0.0'')]"
    unfolding c
    by (simp add: unusedEntries_def kept_def excludeNames_of_def packageJson_def example_flags
        productionEnv_def exampleEnv_def exampleConfig_def)
  have g: "getLocked ?E = getLocked exampleEnv"
    by (simp add: productionEnv_def)
  have up: "usedPatterns productionRequest = [''left-pad'', ''chalk@^1.0.0'', ''fsevents@^1.0.0'']"
    and ip: "ignorePatterns productionRequest = [''mocha@^3.0.0'']"
    by (simp_all add: productionRequest_def)
  note t = fetchRequestFromCwd_partition [OF p]
  from t have un: "set (usedPatterns productionRequest) \<union> set (ignorePatterns productionRequest) =
     set (patterns productionRequest)" by blast
  from t have "set (usedPatterns productionRequest) \<inter> set (ignorePatterns productionRequest) = {}"
    unfolding ue ie by (simp add: emitted_def g getLocked_example)
  with production_fetch ue ie up ip un show ?thesis by blast
qed

text \<open>
  Stated for every input, disjointness fails: in production mode the pattern
  \<open>a@^1.0.0\<close> is pushed once as used, for the dependency \<open>a\<close> with range \<open>^1.0.0\<close>, and
  once as ignored, for a locked dev dependency whose name is \<open>a@^1.0.0\<close>.
\<close>

theorem fetchRequestFromCwd_partition_counterexample:
  "fst (fetchRequestFromCwd (productionEnv aliasJson) [] False aliasInstall) =
     Inr \<lparr>requests =
            [\<lparr>req_pattern = ''a@^1.0.0'', req_registry = ''npm'', req_hint = None,
               req_optional = False\<rparr>,
             \<lparr>req_pattern = ''a@^1.0.0'', req_registry = ''npm'', req_hint = Some ''dev'',
               req_optional = False\<rparr>],
          patterns = [''a@^1.0.0'', ''a@^1.0.0''],
          ignorePatterns = [''a@^1.0.0''],
          usedPatterns = [''a@^1.0.0''],
          manifest = Some aliasJson\<rparr>"
  by (simp add: eval_fetch productionEnv_def aliasJson_def aliasInstall_def)

section \<open>The first registry wins\<close>

text \<open>
  C4. When the manifest of a registry exists and no manifest of an earlier registry
  does, \<open>fetchRequestFromCwd\<close> behaves as if that registry were the only one: the
  registries after it, whether their manifests exist or not, contribute nothing. Only
  that manifest is read, only that registry is recorded, every request carries that
  registry, and the manifest record and the resolutions come from that manifest.
\<close>

theorem first_registry_wins:
  assumes "registries E = before @ (registry, filename) # after"
    and "\<forall>rf \<in> set before. \<not> fs_exists (world s) (path_join E (cwd (config E)) (snd rf))"
    and "fs_exists (world s) (path_join E (cwd (config E)) filename)"
  shows "fetchRequestFromCwd E excludePatterns ignoreUnusedPatterns s =
           fetchRequestFromCwd (E\<lparr>registries := [(registry, filename)]\<rparr>)
             excludePatterns ignoreUnusedPatterns s \<and>
         trace (world (snd (fetchRequestFromCwd E excludePatterns ignoreUnusedPatterns s))) =
           trace (world s) @ [ReadJson (path_join E (cwd (config E)) filename)] \<and>
         rootManifestRegistries (snd (fetchRequestFromCwd E excludePatterns ignoreUnusedPatterns s)) =
           rootManifestRegistries s @ [registry] \<and>
         (\<forall>req. fst (fetchRequestFromCwd E excludePatterns ignoreUnusedPatterns s) = Inr req \<longrightarrow>
            (\<forall>q \<in> set (requests req). req_registry q = registry) \<and>
            (\<exists>json0 json.
               readJson E (world s) (path_join E (cwd (config E)) filename) = Inr json0 \<and>
               normalizeManifest E json0 = Inr json \<and>
               manifest req = Some json \<and>
               resolutions (snd (fetchRequestFromCwd E excludePatterns ignoreUnusedPatterns s)) =
                 obj_assign (resolutions s) (manifest_resolutions json)))"
proof -
  let ?P = "\<lambda>rf. fs_exists (world s) (manifestLoc E rf)"
  let ?E' = "E\<lparr>registries := [(registry, filename)]\<rparr>"
  have f: "find ?P (registries E) = Some (registry, filename)"
    using assms by (intro find_first [where pre = before and post = after])
      (auto simp: manifestLoc_def)
  have f': "find (\<lambda>rf. fs_exists (world s) (manifestLoc ?E' rf)) (registries ?E') =
              Some (registry, filename)"
    using assms(3) by (simp add: manifestLoc_def)
  have loc: "manifestLoc E (registry, filename) = path_join E (cwd (config E)) filename"
    by (simp add: manifestLoc_def)
  have eq: "fetchRequestFromCwd E excludePatterns ignoreUnusedPatterns s =
              fetchRequestFromCwd ?E' excludePatterns ignoreUnusedPatterns s"
    unfolding fetch_first [OF f] fetch_first [OF f']
    by (simp add: pushAll_registries excludeNames_of_registries manifestLoc_registries Let_def
        split: sum.splits)
  have tr: "trace (world (snd (fetchRequestFromCwd E excludePatterns ignoreUnusedPatterns s))) =
           trace (world s) @ [ReadJson (path_join E (cwd (config E)) filename)]"
    unfolding fetch_first [OF f]
    by (simp add: loc afterRead_def log_effect_def Let_def pushAll_simps inheritFlat_frame
        split: sum.splits)
  have rm: "rootManifestRegistries (snd (fetchRequestFromCwd E excludePatterns ignoreUnusedPatterns s)) =
           rootManifestRegistries s @ [registry]"
    unfolding fetch_first [OF f]
    by (simp add: loc afterRead_def Let_def pushAll_simps inheritFlat_frame split: sum.splits)
  have rq: "\<forall>req. fst (fetchRequestFromCwd E excludePatterns ignoreUnusedPatterns s) = Inr req \<longrightarrow>
            (\<forall>q \<in> set (requests req). req_registry q = registry) \<and>
            (\<exists>json0 json.
               readJson E (world s) (path_join E (cwd (config E)) filename) = Inr json0 \<and>
               normalizeManifest E json0 = Inr json \<and>
               manifest req = Some json \<and>
               resolutions (snd (fetchRequestFromCwd E excludePatterns ignoreUnusedPatterns s)) =
                 obj_assign (resolutions s) (manifest_resolutions json))"
  proof (intro allI impI)
    fix req
    assume r: "fst (fetchRequestFromCwd E excludePatterns ignoreUnusedPatterns s) = Inr req"
    then obtain json0 where j0: "readJson E (world s) (manifestLoc E (registry, filename)) = Inr json0"
      unfolding fetch_first [OF f]
      by (cases "readJson E (world s) (manifestLoc E (registry, filename))") auto
    from r j0 obtain json where j: "normalizeManifest E json0 = Inr json"
      unfolding fetch_first [OF f]
      by (cases "normalizeManifest E json0") auto
    let ?acc = "pushAll E (excludeNames_of E excludePatterns) ignoreUnusedPatterns registry json
                  (emptyRequest\<lparr>manifest := Some json\<rparr>,
                   (afterRead registry (manifestLoc E (registry, filename)) s)
                     \<lparr>resolutions := obj_assign (resolutions s) (manifest_resolutions json)\<rparr>)"
    have res: "fetchRequestFromCwd E excludePatterns ignoreUnusedPatterns s =
                 (Inr (fst ?acc), inheritFlat json (snd ?acc))"
      unfolding fetch_first [OF f] by (simp add: j0 j Let_def)
    have req: "req = fst ?acc" using r res by simp
    have "req_registry ` set (requests req) \<subseteq> {registry}"
      unfolding req using pushAll_simps(5) [of E "excludeNames_of E excludePatterns"
          ignoreUnusedPatterns registry json
          "(emptyRequest\<lparr>manifest := Some json\<rparr>,
             (afterRead registry (manifestLoc E (registry, filename)) s)
               \<lparr>resolutions := obj_assign (resolutions s) (manifest_resolutions json)\<rparr>)"]
      by (simp add: emptyRequest_simps)
    then have a: "\<forall>q \<in> set (requests req). req_registry q = registry" by auto
    have b: "manifest req = Some json"
      unfolding req by (simp add: pushAll_simps)
    have c: "resolutions (snd (fetchRequestFromCwd E excludePatterns ignoreUnusedPatterns s)) =
                 obj_assign (resolutions s) (manifest_resolutions json)"
      unfolding res by (simp add: inheritFlat_frame pushAll_simps)
    from a b c j0 j loc
    show "(\<forall>q \<in> set (requests req). req_registry q = registry) \<and>
            (\<exists>json0 json.
               readJson E (world s) (path_join E (cwd (config E)) filename) = Inr json0 \<and>
               normalizeManifest E json0 = Inr json \<and>
               manifest req = Some json \<and>
               resolutions (snd (fetchRequestFromCwd E excludePatterns ignoreUnusedPatterns s)) =
                 obj_assign (resolutions s) (manifest_resolutions json))"
      by auto
  qed
  from eq tr rm rq show ?thesis by blast
qed

theorem first_registry_wins_witness:
  "registries threeRegistriesEnv =
     [(''bower'', ''bower.json'')] @ (''npm'', ''package.json'') # [(''yarn'', ''yarn.json'')] \<and>
   \<not> fs_exists (world exampleInstall) ''/project/bower.json'' \<and>
   fs_exists (world exampleInstall) ''/project/package.json'' \<and>
   fs_exists (world exampleInstall) ''/project/yarn.json'' \<and>
   fetchRequestFromCwd threeRegistriesEnv [] False exampleInstall =
     (Inr exampleRequest, exampleInstallAfter) \<and>
   fetchRequestFromCwd (threeRegistriesEnv\<lparr>registries := [(''npm'', ''package.json'')]\<rparr>)
       [] False exampleInstall =
     (Inr exampleRequest, exampleInstallAfter) \<and>
   trace (world exampleInstallAfter) = trace (world exampleInstall) @ [ReadJson ''/project/package.json''] \<and>
   rootManifestRegistries exampleInstallAfter = rootManifestRegistries exampleInstall @ [''npm''] \<and>
   req_registry ` set (requests exampleRequest) = {''npm''} \<and>
   manifest exampleRequest = Some packageJson"
proof -
  have r: "registries threeRegistriesEnv =
     [(''bower'', ''bower.json'')] @ (''npm'', ''package.json'') # [(''yarn'', ''yarn.json'')]"
    by (simp add: threeRegistriesEnv_def)
  have pj: "path_join threeRegistriesEnv (cwd (config threeRegistriesEnv)) = (\<lambda>f. ''/project/'' @ f)"
    by (simp add: threeRegistriesEnv_def exampleEnv_def exampleConfig_def)
  have b: "\<forall>rf \<in> set [(''bower'', ''bower.json'')].
             \<not> fs_exists (world exampleInstall)
                 (path_join threeRegistriesEnv (cwd (config threeRegistriesEnv)) (snd rf))"
    by (simp add: pj fs_exists_def exampleInstall_def new_Install_def exampleWorld_def)
  have p: "fs_exists (world exampleInstall)
             (path_join threeRegistriesEnv (cwd (config threeRegistriesEnv)) ''package.json'')"
    by (simp add: pj fs_exists_def exampleInstall_def new_Install_def exampleWorld_def)
  have y: "fs_exists (world exampleInstall) ''/project/yarn.json''"
    by (simp add: fs_exists_def exampleInstall_def new_Install_def exampleWorld_def)
  note w = first_registry_wins [OF r b p, of "[]" False]
  have e: "fetchRequestFromCwd (threeRegistriesEnv\<lparr>registries := [(''npm'', ''package.json'')]\<rparr>)
       [] False exampleInstall = (Inr exampleRequest, exampleInstallAfter)"
    using w three_fetch_pair by simp
  have q: "req_registry ` set (requests exampleRequest) = {''npm''}"
    by (simp add: exampleRequest_def)
  have m: "manifest exampleRequest = Some packageJson"
    by (simp add: exampleRequest_def)
  from w three_fetch_pair
  have t: "trace (world exampleInstallAfter) =
             trace (world exampleInstall) @ [ReadJson ''/project/package.json'']"
    and g: "rootManifestRegistries exampleInstallAfter = rootManifestRegistries exampleInstall @ [''npm'']"
    by (simp_all add: pj)
  from r b p y three_fetch_pair e t g q m show ?thesis
    by (simp add: pj)
qed

section \<open>Saving the lockfile\<close>

text \<open>
  C5 (as amended). When lockfile writes are disabled (\<open>flags.lockfile\<close> false or
  \<open>pureLockfile\<close>), \<open>saveLockfileAndIntegrity\<close> returns at once and writes nothing.
  When they are enabled and the call completes, the candidate was computed, the
  integrity witness is saved, and the lockfile is not rewritten exactly when every
  pattern has a lock entry, every entry of the candidate agrees with the existing
  lockfile on \<open>resolved\<close>, \<open>patterns\<close> is non-empty and \<open>force\<close> is not set; otherwise
  the candidate is written to \<open>cwd/LOCKFILE_FILENAME\<close>, and nothing else is written
  there.
\<close>

theorem saveLockfileAndIntegrity_skip_write:
  "(\<not> lockfile (flags s) \<or> pureLockfile (flags s) \<longrightarrow>
      saveLockfileAndIntegrity E pats s = (Inr (), s)) \<and>
   (lockfile (flags s) \<and> \<not> pureLockfile (flags s) \<and>
    fst (saveLockfileAndIntegrity E pats s) = Inr () \<longrightarrow>
      (\<exists>candidate.
         getLockfile E (this_lockfile s) (resolver_patterns (resolver s)) = Inr candidate \<and>
         IntegritySave pats candidate (flags s) (usedRegistries (resolver s))
           \<in> set (newEffects s (snd (saveLockfileAndIntegrity E pats s))) \<and>
         (\<forall>loc src. WriteFilePreservingEol loc src
              \<in> set (newEffects s (snd (saveLockfileAndIntegrity E pats s))) \<longrightarrow>
            loc = path_join E (cwd (config E)) (LOCKFILE_FILENAME E) \<and> src = candidate) \<and>
         (WriteFilePreservingEol (path_join E (cwd (config E)) (LOCKFILE_FILENAME E)) candidate
              \<notin> set (newEffects s (snd (saveLockfileAndIntegrity E pats s))) \<longleftrightarrow>
            (\<forall>p \<in> set pats. getLocked E (this_lockfile s) p False \<noteq> None) \<and>
            (\<forall>entry \<in> set candidate. \<exists>man.
               getLocked E (this_lockfile s) (fst entry) False = Some man \<and>
               resolved man = resolved (snd entry)) \<and>
            pats \<noteq> [] \<and> \<not> force (flags s))))"
proof (intro conjI impI)
  assume "\<not> lockfile (flags s) \<or> pureLockfile (flags s)"
  then show "saveLockfileAndIntegrity E pats s = (Inr (), s)"
    by (auto simp: saveLockfileAndIntegrity_def io_simps)
next
  assume a: "lockfile (flags s) \<and> \<not> pureLockfile (flags s) \<and>
    fst (saveLockfileAndIntegrity E pats s) = Inr ()"
  let ?loc = "path_join E (cwd (config E)) (LOCKFILE_FILENAME E)"
  from a saveLockfileAndIntegrity_Inr [of s E pats] obtain candidate evs where
    c: "getLockfile E (this_lockfile s) (resolver_patterns (resolver s)) = Inr candidate" and
    me: "list_all isMirrorEffect evs" and
    ne: "newEffects s (snd (saveLockfileAndIntegrity E pats s)) =
       evs @ [IntegritySave pats candidate (flags s) (usedRegistries (resolver s))]
         @ (if lockFileHasAllPatterns E (this_lockfile s) pats \<and>
               resolverPatternsAreSameAsInLockfile E (this_lockfile s) candidate \<and>
               length pats \<noteq> 0 \<and> \<not> force (flags s)
            then []
            else [WriteFilePreservingEol ?loc candidate,
                  ReporterSuccess (Lang ''savedLockfile'' [])])"
    by blast
  have nomirror: "\<And>ev. ev \<in> set evs \<Longrightarrow> isMirrorEffect ev"
    using me by (simp add: list_all_iff)
  have nw: "\<And>loc src. WriteFilePreservingEol loc src \<notin> set evs"
    using nomirror by (force simp: isMirrorEffect_def)
  have 1: "IntegritySave pats candidate (flags s) (usedRegistries (resolver s))
           \<in> set (newEffects s (snd (saveLockfileAndIntegrity E pats s)))"
    unfolding ne by simp
  have 2: "\<forall>loc src. WriteFilePreservingEol loc src
           \<in> set (newEffects s (snd (saveLockfileAndIntegrity E pats s))) \<longrightarrow>
         loc = ?loc \<and> src = candidate"
    unfolding ne using nw by (auto split: if_splits)
  have 3: "(WriteFilePreservingEol ?loc candidate
           \<notin> set (newEffects s (snd (saveLockfileAndIntegrity E pats s)))) \<longleftrightarrow>
         (\<forall>p \<in> set pats. getLocked E (this_lockfile s) p False \<noteq> None) \<and>
         (\<forall>entry \<in> set candidate. \<exists>man.
            getLocked E (this_lockfile s) (fst entry) False = Some man \<and>
            resolved man = resolved (snd entry)) \<and>
         pats \<noteq> [] \<and> \<not> force (flags s)"
    unfolding ne using nw
    by (simp add: lockFileHasAllPatterns_iff resolverPatternsAreSameAsInLockfile_iff)
  from c 1 2 3 show "\<exists>candidate.
         getLockfile E (this_lockfile s) (resolver_patterns (resolver s)) = Inr candidate \<and>
         IntegritySave pats candidate (flags s) (usedRegistries (resolver s))
           \<in> set (newEffects s (snd (saveLockfileAndIntegrity E pats s))) \<and>
         (\<forall>loc src. WriteFilePreservingEol loc src
              \<in> set (newEffects s (snd (saveLockfileAndIntegrity E pats s))) \<longrightarrow>
            loc = ?loc \<and> src = candidate) \<and>
         (WriteFilePreservingEol ?loc candidate
              \<notin> set (newEffects s (snd (saveLockfileAndIntegrity E pats s))) \<longleftrightarrow>
            (\<forall>p \<in> set pats. getLocked E (this_lockfile s) p False \<noteq> None) \<and>
            (\<forall>entry \<in> set candidate. \<exists>man.
               getLocked E (this_lockfile s) (fst entry) False = Some man \<and>
               resolved man = resolved (snd entry)) \<and>
            pats \<noteq> [] \<and> \<not> force (flags s))"
    by blast
qed


theorem saveLockfileAndIntegrity_skip_write_witness:
  "\<not> lockfile (flags noLockfileInstall) \<and>
   saveLockfileAndIntegrity exampleEnv [''left-pad''] noLockfileInstall = (Inr (), noLockfileInstall) \<and>
   lockfile (flags exampleInstall) \<and> \<not> pureLockfile (flags exampleInstall) \<and>
   \<not> force (flags exampleInstall) \<and>
   throws fetcherFailsEnv exampleWorld FetcherInit = Some (CollaboratorError ''ENOTFOUND'') \<and>
   fst (saveLockfileAndIntegrity fetcherFailsEnv [''left-pad'']
          (exampleInstall\<lparr>resolver := lockedResolver\<rparr>)) = Inr () \<and>
   WriteFilePreservingEol ''/project/yarn.lock''
       [(''left-pad'',
          \<lparr>resolved = Some ''https://registry.yarnpkg.com/left-pad/-/left-pad-1.1.3.tgz#abc'',
            lock_version = ''1.1.3''\<rparr>)]
     \<notin> set (newEffects (exampleInstall\<lparr>resolver := lockedResolver\<rparr>)
              (snd (saveLockfileAndIntegrity fetcherFailsEnv [''left-pad'']
                     (exampleInstall\<lparr>resolver := lockedResolver\<rparr>)))) \<and>
   getLocked fetcherFailsEnv exampleLockfile ''chalk@^1.0.0'' False = None \<and>
   fst (saveLockfileAndIntegrity fetcherFailsEnv [''left-pad'', ''chalk@^1.0.0'']
          (exampleInstall\<lparr>resolver := exampleResolver\<rparr>)) = Inr () \<and>
   WriteFilePreservingEol ''/project/yarn.lock'' exampleCandidate
     \<in> set (newEffects (exampleInstall\<lparr>resolver := exampleResolver\<rparr>)
              (snd (saveLockfileAndIntegrity fetcherFailsEnv [''left-pad'', ''chalk@^1.0.0'']
                     (exampleInstall\<lparr>resolver := exampleResolver\<rparr>))))"
proof -
  have n: "\<not> lockfile (flags noLockfileInstall)"
    by (simp add: noLockfileInstall_def new_Install_def normalizeFlags_def exampleEnv_def
        exampleConfig_def)
  have c: "getLocked fetcherFailsEnv exampleLockfile ''chalk@^1.0.0'' False = None"
    by (simp add: fetcherFails_simps exampleEnv_def exampleLockfile_def)
  have f: "throws fetcherFailsEnv exampleWorld FetcherInit = Some (CollaboratorError ''ENOTFOUND'')"
    by (simp add: fetcherFailsEnv_def)
  note d = saveLockfileAndIntegrity_skip_write
    [of noLockfileInstall exampleEnv "[''left-pad'']"]
  note k = saveLockfileAndIntegrity_skip_write
    [of "exampleInstall\<lparr>resolver := lockedResolver\<rparr>" fetcherFailsEnv "[''left-pad'']"]
  note w = saveLockfileAndIntegrity_skip_write
    [of "exampleInstall\<lparr>resolver := exampleResolver\<rparr>" fetcherFailsEnv
        "[''left-pad'', ''chalk@^1.0.0'']"]
  from d n have 1: "saveLockfileAndIntegrity exampleEnv [''left-pad''] noLockfileInstall =
      (Inr (), noLockfileInstall)" by blast
  from k have 2: "WriteFilePreservingEol ''/project/yarn.lock''
       [(''left-pad'',
          \<lparr>resolved = Some ''https://registry.yarnpkg.com/left-pad/-/left-pad-1.1.3.tgz#abc'',
            lock_version = ''1.1.3''\<rparr>)]
     \<notin> set (newEffects (exampleInstall\<lparr>resolver := lockedResolver\<rparr>)
              (snd (saveLockfileAndIntegrity fetcherFailsEnv [''left-pad'']
                     (exampleInstall\<lparr>resolver := lockedResolver\<rparr>))))"
    by (simp add: example_flags fetcherFails_save fetcherFails_simps locked_candidate
        getLocked_example)
  from w have 3: "WriteFilePreservingEol ''/project/yarn.lock'' exampleCandidate
     \<in> set (newEffects (exampleInstall\<lparr>resolver := exampleResolver\<rparr>)
              (snd (saveLockfileAndIntegrity fetcherFailsEnv [''left-pad'', ''chalk@^1.0.0'']
                     (exampleInstall\<lparr>resolver := exampleResolver\<rparr>))))"
    by (simp add: example_flags fetcherFails_save fetcherFails_simps example_candidate
        getLocked_example)
  from n 1 2 3 c f show ?thesis
    by (simp add: example_flags fetcherFails_save)
qed

text \<open>
  Stated without the first case, the property fails under \<open>--no-lockfile\<close>: with no
  patterns the four conditions do not all hold, yet nothing is written.
\<close>

theorem saveLockfileAndIntegrity_skip_write_counterexample:
  "\<not> (lockFileHasAllPatterns exampleEnv (this_lockfile noLockfileInstall) [] \<and>
       resolverPatternsAreSameAsInLockfile exampleEnv (this_lockfile noLockfileInstall) [] \<and>
       length ([] :: string list) \<noteq> 0 \<and>
       \<not> force (flags noLockfileInstall)) \<and>
   saveLockfileAndIntegrity exampleEnv [] noLockfileInstall = (Inr (), noLockfileInstall)"
  by (simp add: saveLockfileAndIntegrity_def io_simps noLockfileInstall_def new_Install_def
      normalizeFlags_def exampleEnv_def exampleConfig_def)

section \<open>Forcing options\<close>

text \<open>
  C6. Flag normalization is monotone in the forcing config options: whenever one of
  the options ignore-scripts, ignore-platform, ignore-engines, ignore-optional,
  force is truthy in the config, the corresponding effective flag is true whatever
  the raw flag is, and a truthy raw flag stays true whatever the config says.
\<close>

theorem normalizeFlags_forcing_monotone:
  "(truthy (getOption cfg ''ignore-scripts'') \<or> truthy (rawFlags ''ignoreScripts'')
      \<longrightarrow> ignoreScripts (normalizeFlags cfg rawFlags)) \<and>
   (truthy (getOption cfg ''ignore-platform'') \<or> truthy (rawFlags ''ignorePlatform'')
      \<longrightarrow> ignorePlatform (normalizeFlags cfg rawFlags)) \<and>
   (truthy (getOption cfg ''ignore-engines'') \<or> truthy (rawFlags ''ignoreEngines'')
      \<longrightarrow> ignoreEngines (normalizeFlags cfg rawFlags)) \<and>
   (truthy (getOption cfg ''ignore-optional'') \<or> truthy (rawFlags ''ignoreOptional'')
      \<longrightarrow> ignoreOptional (normalizeFlags cfg rawFlags)) \<and>
   (truthy (getOption cfg ''force'') \<or> truthy (rawFlags ''force'')
      \<longrightarrow> force (normalizeFlags cfg rawFlags))"
  by (simp add: normalizeFlags_def Let_def)

theorem normalizeFlags_forcing_monotone_witness:
  "truthy (getOption forcingConfig ''force'') \<and> \<not> truthy (forcedRawFlags ''force'') \<and>
   truthy (getOption forcingConfig ''ignore-scripts'') \<and>
   \<not> truthy (getOption forcingConfig ''ignore-engines'') \<and>
   truthy (forcedRawFlags ''ignoreEngines'') \<and>
   force (normalizeFlags forcingConfig forcedRawFlags) \<and>
   ignoreScripts (normalizeFlags forcingConfig forcedRawFlags) \<and>
   ignoreEngines (normalizeFlags forcingConfig forcedRawFlags)"
  using normalizeFlags_forcing_monotone [of forcingConfig forcedRawFlags]
  by (simp add: forcingConfig_def forcedRawFlags_def exampleConfig_def)

section \<open>Pruning the offline mirror\<close>

text \<open>
  C7. After \<open>pruneOfflineMirror(lockfile)\<close> has completed for a configured mirror,
  the files that exist are those of before, less the files under the mirror whose
  basename is not required: every file still under the mirror has the basename of
  some locked entry's \<open>resolved\<close> field after stripping the \<open>#hash\<close> suffix, and
  every other file under the mirror has been unlinked.
\<close>

theorem pruneOfflineMirror_sound:
  assumes "getOfflineMirrorPath (config E) = Some mirror" and "mirror \<noteq> []"
    and "pruneOfflineMirror E lockfileImage w = (Inr u, w')"
  shows "files w' =
           filter (\<lambda>p. \<not> (path_inside E mirror p \<and>
                         path_basename E p \<notin> set (requiredTarballs E lockfileImage))) (files w)
         \<and> (\<forall>p \<in> set (files w'). path_inside E mirror p \<longrightarrow>
               (\<exists>entry \<in> set lockfileImage. \<exists>r. resolved (snd entry) = Some r \<and> r \<noteq> [] \<and>
                  path_basename E p = path_basename E (takeWhile (\<lambda>c. c \<noteq> CHR ''#'') r)))
         \<and> (\<forall>p \<in> set (files w). path_inside E mirror p \<and>
               path_basename E p \<notin> set (requiredTarballs E lockfileImage) \<longrightarrow>
               p \<notin> set (files w') \<and> Unlink p \<in> set (trace w'))"
proof -
  let ?req = "requiredTarballs E lockfileImage"
  from assms obtain tarballs w1 where
    wk: "fs_walk E mirror w = (Inr tarballs, w1)" and
    ul: "unlinkStale E ?req tarballs w1 = (Inr u, w')"
    by (auto simp: pruneOfflineMirror_def truthy_string_def io_bind_apply Let_def
        split: prod.splits sum.splits)
  note wk' = fs_walk_Inr [OF wk]
  have fw1: "files w1 = files w" using wk'(1) by (simp add: log_effect_def)
  have stale: "absolute ` {t \<in> set tarballs. basename t \<notin> set ?req} =
                 {p \<in> set (files w). path_inside E mirror p \<and> path_basename E p \<notin> set ?req}"
  proof (intro set_eqI iffI)
    fix p assume "p \<in> absolute ` {t \<in> set tarballs. basename t \<notin> set ?req}"
    then show "p \<in> {p \<in> set (files w). path_inside E mirror p \<and> path_basename E p \<notin> set ?req}"
      unfolding wk'(2) by auto
  next
    fix p assume p: "p \<in> {p \<in> set (files w). path_inside E mirror p \<and> path_basename E p \<notin> set ?req}"
    then have "\<lparr>absolute = p, basename = path_basename E p\<rparr> \<in> {t \<in> set tarballs. basename t \<notin> set ?req}"
      unfolding wk'(2) by auto
    then show "p \<in> absolute ` {t \<in> set tarballs. basename t \<notin> set ?req}"
      by (rule rev_image_eqI) simp
  qed
  from unlinkStale_Inr [OF ul]
  have f: "files w' =
      filter (\<lambda>p. p \<notin> {p \<in> set (files w). path_inside E mirror p \<and> path_basename E p \<notin> set ?req})
        (files w)"
    and t: "trace w' = trace w1 @ map (\<lambda>t. Unlink (absolute t))
        (filter (\<lambda>t. basename t \<notin> set ?req) tarballs)"
    by (simp_all add: stale fw1)
  have a: "files w' =
           filter (\<lambda>p. \<not> (path_inside E mirror p \<and> path_basename E p \<notin> set ?req)) (files w)"
    unfolding f by (rule filter_cong) auto
  have b: "\<forall>p \<in> set (files w'). path_inside E mirror p \<longrightarrow>
               (\<exists>entry \<in> set lockfileImage. \<exists>r. resolved (snd entry) = Some r \<and> r \<noteq> [] \<and>
                  path_basename E p = path_basename E (takeWhile (\<lambda>c. c \<noteq> CHR ''#'') r))"
    unfolding a by (auto simp: mem_requiredTarballs)
  have c: "\<forall>p \<in> set (files w). path_inside E mirror p \<and> path_basename E p \<notin> set ?req \<longrightarrow>
               p \<notin> set (files w') \<and> Unlink p \<in> set (trace w')"
  proof (intro ballI impI)
    fix p assume p: "p \<in> set (files w)"
      and q: "path_inside E mirror p \<and> path_basename E p \<notin> set ?req"
    have "\<lparr>absolute = p, basename = path_basename E p\<rparr> \<in> set tarballs"
      unfolding wk'(2) using p q by auto
    then have "Unlink p \<in> set (trace w')"
      unfolding t using q by (auto simp: image_iff intro!: bexI[where x="\<lparr>absolute = p, basename = path_basename E p\<rparr>"])
    moreover have "p \<notin> set (files w')" unfolding a using q by simp
    ultimately show "p \<notin> set (files w') \<and> Unlink p \<in> set (trace w')" by simp
  qed
  from a b c show ?thesis by blast
qed

theorem pruneOfflineMirror_sound_witness:
  "getOfflineMirrorPath (config mirrorEnv) = Some ''/mirror'' \<and>
   pruneOfflineMirror mirrorEnv mirrorLockfileImage mirrorWorld =
     (Inr (), \<lparr>files = [''/mirror/x-1.tgz'', ''/mirror/y-2.tgz'', ''/project/package.json''],
               trace = [Walk ''/mirror'', Unlink ''/mirror/z-old.tgz'']\<rparr>) \<and>
   [''/mirror/x-1.tgz'', ''/mirror/y-2.tgz'', ''/project/package.json''] =
     filter (\<lambda>p. \<not> (path_inside mirrorEnv ''/mirror'' p \<and>
                   path_basename mirrorEnv p \<notin> set (requiredTarballs mirrorEnv mirrorLockfileImage)))
       (files mirrorWorld)"
proof -
  have m: "getOfflineMirrorPath (config mirrorEnv) = Some ''/mirror''"
    by (simp add: mirrorEnv_def exampleConfig_def)
  have n: "''/mirror'' \<noteq> []" by simp
  from pruneOfflineMirror_sound [OF m n mirror_prune] m mirror_prune
  show ?thesis by simp
qed

section \<open>The shape of a pattern\<close>

text \<open>
  C8. For every dependency entry that \<open>fetchRequestFromCwd\<close> processes, the emitted
  pattern is the bare name when \<open>lockfile.getLocked(name, true)\<close> is truthy, and
  \<open>name + '@' + range\<close> with the declared range otherwise; the requests carry the same
  patterns, in the same order.
\<close>

theorem fetchRequestFromCwd_pattern_shape:
  assumes "fetchRequestFromCwd E excludePatterns ignoreUnusedPatterns s = (Inr req, s')"
  shows "patterns req =
           map (\<lambda>entry. if getLocked E (this_lockfile s) (fst entry) True \<noteq> None
                        then fst entry else fst entry @ ''@'' @ snd entry)
             (processedEntries E excludePatterns ignoreUnusedPatterns (flags s) (manifest req))
         \<and> map req_pattern (requests req) = patterns req"
proof -
  have "emitted E (this_lockfile s) =
          (\<lambda>entry. if getLocked E (this_lockfile s) (fst entry) True \<noteq> None
                        then fst entry else fst entry @ ''@'' @ snd entry)"
    by (auto simp: emitted_def)
  with fetch_patterns [OF assms] show ?thesis by simp
qed

theorem fetchRequestFromCwd_pattern_shape_witness:
  "fetchRequestFromCwd exampleEnv [] False exampleInstall = (Inr exampleRequest, exampleInstallAfter) \<and>
   getLocked exampleEnv (this_lockfile exampleInstall) ''left-pad'' True \<noteq> None \<and>
   getLocked exampleEnv (this_lockfile exampleInstall) ''chalk'' True = None \<and>
   processedEntries exampleEnv [] False (flags exampleInstall) (manifest exampleRequest) =
        [(''left-pad'', ''^1.1.0''), (''chalk'', ''^1.0.0''), (''mocha'', ''^3.0.0''),
         (''fsevents'', ''^1.0.0'')] \<and>
   patterns exampleRequest = [''left-pad'', ''chalk@^1.0.0'', ''mocha@^3.0.0'', ''fsevents@^1.0.0''] \<and>
   map req_pattern (requests exampleRequest) = patterns exampleRequest"
proof -
  have l: "getLocked exampleEnv (this_lockfile exampleInstall) ''left-pad'' True \<noteq> None"
    and c: "getLocked exampleEnv (this_lockfile exampleInstall) ''chalk'' True = None"
    by (simp_all add: exampleEnv_def exampleInstall_def new_Install_def exampleLockfile_def)
  have p: "processedEntries exampleEnv [] False (flags exampleInstall) (manifest exampleRequest) =
        [(''left-pad'', ''^1.1.0''), (''chalk'', ''^1.0.0''), (''mocha'', ''^3.0.0''),
         (''fsevents'', ''^1.0.0'')]"
    by (simp add: processedEntries_def kept_def excludeNames_of_def packageJson_def
        exampleRequest_def exampleEnv_def exampleConfig_def)
  have q: "patterns exampleRequest = [''left-pad'', ''chalk@^1.0.0'', ''mocha@^3.0.0'', ''fsevents@^1.0.0'']"
    by (simp add: exampleRequest_def)
  from fetchRequestFromCwd_pattern_shape [OF example_fetch_pair] have
    r: "map req_pattern (requests exampleRequest) = patterns exampleRequest" by blast
  show ?thesis using example_fetch_pair l c p q r by blast
qed

section \<open>Positional arguments\<close>

text \<open>
  C9 (as amended). Called with a non-empty list of positional arguments, \<open>run\<close>
  first loads the lockfile unless \<open>flags.lockfile\<close> is \<open>false\<close>; if loading fails, that
  failure is thrown, and otherwise a \<open>MessageError\<close> whose message suggests the
  equivalent \<open>add\<close> (or \<open>global add\<close>) invocation with the save flags appended. In
  every case nothing else happens: no lifecycle script runs and no install pipeline
  is started.
\<close>

theorem run_rejects_positional_args:
  assumes "args \<noteq> []"
  shows "run E rawFlags args w =
           (if rawFlags ''lockfile'' = JSBool False
            then (Inl (MessageError (Lang ''installCommandRenamed'' [addSuggestion rawFlags args])), w)
            else
              (case fromDirectory E w (cwd (config E)) of
                 Inl e \<Rightarrow> Inl e
               | Inr lf \<Rightarrow>
                   Inl (MessageError (Lang ''installCommandRenamed'' [addSuggestion rawFlags args])),
               log_effect (LockfileFromDirectory (cwd (config E))) w))"
  using assms
  by (simp add: run_def io_simps addSuggestion_def Let_def split: sum.splits)

theorem run_rejects_positional_args_witness:
  "[''foo''] \<noteq> ([] :: string list) \<and>
   run exampleEnv (\<lambda>k. if k = ''saveDev'' then JSBool True else JSUndefined) [''foo''] exampleWorld =
     (Inl (MessageError (Lang ''installCommandRenamed'' [''yarn add foo --dev''])),
      exampleWorld\<lparr>trace := [LockfileFromDirectory ''/project'']\<rparr>) \<and>
   run exampleEnv
       (\<lambda>k. if k = ''lockfile'' then JSBool False
            else if k = ''global'' \<or> k = ''saveExact'' then JSBool True else JSUndefined)
       [''foo'', ''bar@^2.0.0''] exampleWorld =
     (Inl (MessageError (Lang ''installCommandRenamed''
             [''yarn global add foo bar@^2.0.0 --exact''])),
      exampleWorld)"
proof -
  have a: "[''foo''] \<noteq> ([] :: string list)" and b: "[''foo'', ''bar@^2.0.0''] \<noteq> ([] :: string list)"
    by simp_all
  from run_rejects_positional_args [OF a, of exampleEnv
      "\<lambda>k. if k = ''saveDev'' then JSBool True else JSUndefined" exampleWorld]
    run_rejects_positional_args [OF b, of exampleEnv
      "\<lambda>k. if k = ''lockfile'' then JSBool False
            else if k = ''global'' \<or> k = ''saveExact'' then JSBool True else JSUndefined"
      exampleWorld]
  show ?thesis
    by (simp add: addSuggestion_def exampleEnv_def exampleConfig_def exampleWorld_def
        log_effect_def)
qed

text \<open>
  Stated for every invocation, the property fails where the lockfile cannot be
  loaded: the error of the loader is thrown instead of the suggestion.
\<close>

theorem run_rejects_positional_args_counterexample:
  "run brokenLockfileEnv (\<lambda>_. JSUndefined) [''foo''] exampleWorld =
     (Inl (CollaboratorError ''SyntaxError: Unknown token 1:1 in yarn.lock''),
      exampleWorld\<lparr>trace := [LockfileFromDirectory ''/project'']\<rparr>)"
  by (simp add: run_def io_simps brokenLockfileEnv_def exampleEnv_def exampleConfig_def
      exampleWorld_def log_effect_def)

section \<open>Flatten outside flat mode\<close>

text \<open>
  C10. When \<open>flags.flat\<close> is false, \<open>flatten\<close> is the identity on its input: it
  returns the pattern list unchanged, and leaves the instance and the world, with its
  trace, as they were: no reporter prompt, no resolver collapse, no root-manifest save.
\<close>

theorem flatten_identity_when_not_flat:
  assumes "\<not> flat (flags s)"
  shows "flatten E pats s = (Inr (map Some pats), s)"
  using assms by (simp add: flatten_def io_simps)

theorem flatten_identity_when_not_flat_witness:
  "\<not> flat (flags exampleInstall) \<and>
   flatten exampleEnv [''left-pad'', ''chalk@^1.0.0''] exampleInstall =
     (Inr [Some ''left-pad'', Some ''chalk@^1.0.0''], exampleInstall)"
proof -
  have h: "\<not> flat (flags exampleInstall)"
    by (simp add: exampleInstall_def new_Install_def normalizeFlags_def exampleEnv_def
        exampleConfig_def)
  from flatten_identity_when_not_flat [OF h, of exampleEnv "[''left-pad'', ''chalk@^1.0.0'']"] h
  show ?thesis by simp
qed


end
